theory Spec2Isabelle
  imports Complex_Main
begin

section \<open>Data model of the rental tracker (src/app.js)\<close>

text \<open>
  Timestamps are milliseconds since the epoch, as \<open>Date.now()\<close> returns them. The
  source persists some of them as ISO-8601 text (\<open>toISOString\<close>) and reads them back with
  \<open>new Date(...)\<close>; that round trip keeps the millisecond value, so the model stores the
  number. The two display-only text fields of an asset (\<open>description\<close>, \<open>imageEmoji\<close>)
  are never read by the ledger operations and are left out of the record.
\<close>

datatype asset_status = Idle | Rented

record asset =
  a_id :: string
  a_name :: string
  a_category :: string
  a_site :: string
  a_status :: asset_status
  a_lastSeenAt :: int
  a_quantity :: int

record customer =
  c_name :: string
  c_phone :: string
  c_email :: string

record rental =
  r_id :: string
  r_assetId :: string
  r_site :: string
  r_checkOutAt :: int
  r_checkInAt :: int
  r_customer :: customer
  r_fuelAtStart :: int
  r_odometerAtStart :: int
  r_notes :: string
  r_createdAt :: int
  r_returnedAt :: "int option"

record meta =
  version :: string
  seededAt :: int

definition APP_VERSION :: string where
  "APP_VERSION = ''1.0.0''"

section \<open>Storage\<close>

text \<open>
  \<open>localStorage\<close> maps a key to the text stored under it. The text is kept in parsed
  form: the JSON text of an asset list, of a rental list, of the metadata object, or text
  that \<open>JSON.parse\<close> rejects. Reading a document of another shape than the one asked for
  is outside the data model; the typed parsers below reject it, so the read falls back.
\<close>

datatype raw =
    JSON_assets "asset list"
  | JSON_rentals "rental list"
  | JSON_meta meta
  | Text string

datatype exn = TypeError | SyntaxError | QuotaExceededError

type_synonym 'r localStorage = "string \<Rightarrow> 'r option"

definition localStorage_clear :: "'r localStorage \<Rightarrow> 'r localStorage" where
  "localStorage_clear ls = (\<lambda>key. None)"

text \<open>
  \<open>localStorage.setItem\<close> of a browser that accepts the write, and of one whose quota is
  exhausted: the latter throws and stores nothing. The ledger operations below run on the
  former; \<open>storage_set\<close> takes the primitive as a parameter, so that its behaviour on
  a write that throws can be stated.
\<close>

definition localStorage_setItem ::
    "string \<Rightarrow> 'r \<Rightarrow> 'r localStorage \<Rightarrow> exn + 'r localStorage" where
  "localStorage_setItem key text ls = Inr (ls(key \<mapsto> text))"

definition localStorage_setItem_full ::
    "string \<Rightarrow> 'r \<Rightarrow> 'r localStorage \<Rightarrow> exn + 'r localStorage" where
  "localStorage_setItem_full key text ls = Inl QuotaExceededError"

text \<open>
  \<open>storage.get(key, fallback)\<close>: a missing key, and a parse that throws, give the fallback.
\<close>

definition storage_get ::
    "('r \<Rightarrow> exn + 'v) \<Rightarrow> 'r localStorage \<Rightarrow> string \<Rightarrow> 'v \<Rightarrow> 'v" where
  "storage_get JSON_parse ls key fallback =
     (case ls key of
        None \<Rightarrow> fallback
      | Some text \<Rightarrow>
          (case JSON_parse text of
             Inl e \<Rightarrow> fallback
           | Inr v \<Rightarrow> v))"

text \<open>
  \<open>storage.set(key, value)\<close>: \<open>JSON.stringify(value)\<close> is evaluated first, then
  \<open>setItem\<close> is called once; an exception of either is caught and logged, and the
  caller goes on with the store as it is.
\<close>

definition storage_set ::
    "('v \<Rightarrow> exn + 'r) \<Rightarrow> (string \<Rightarrow> 'r \<Rightarrow> 'r localStorage \<Rightarrow> exn + 'r localStorage) \<Rightarrow>
     'r localStorage \<Rightarrow> string \<Rightarrow> 'v \<Rightarrow> 'r localStorage" where
  "storage_set JSON_stringify setItem ls key v =
     (case JSON_stringify v of
        Inl e \<Rightarrow> ls
      | Inr text \<Rightarrow>
          (case setItem key text ls of
             Inl e \<Rightarrow> ls
           | Inr ls' \<Rightarrow> ls'))"

text \<open>A serialiser that throws, as \<open>JSON.stringify\<close> does on a cyclic value.\<close>

definition stringify_throws :: "'v \<Rightarrow> exn + 'r" where
  "stringify_throws v = Inl TypeError"

definition stringify_assets :: "asset list \<Rightarrow> exn + raw" where
  "stringify_assets list = Inr (JSON_assets list)"

definition stringify_rentals :: "rental list \<Rightarrow> exn + raw" where
  "stringify_rentals list = Inr (JSON_rentals list)"

definition stringify_meta :: "meta \<Rightarrow> exn + raw" where
  "stringify_meta m = Inr (JSON_meta m)"

fun parse_assets :: "raw \<Rightarrow> exn + asset list" where
  "parse_assets (JSON_assets list) = Inr list"
| "parse_assets other = Inl SyntaxError"

fun parse_rentals :: "raw \<Rightarrow> exn + rental list" where
  "parse_rentals (JSON_rentals list) = Inr list"
| "parse_rentals other = Inl SyntaxError"

definition DB_KEYS_assets :: string where
  "DB_KEYS_assets = ''srt_assets''"

definition DB_KEYS_rentals :: string where
  "DB_KEYS_rentals = ''srt_rentals''"

definition DB_KEYS_meta :: string where
  "DB_KEYS_meta = ''srt_meta''"

definition getAssets :: "raw localStorage \<Rightarrow> asset list" where
  "getAssets ls = storage_get parse_assets ls DB_KEYS_assets []"

definition setAssets :: "asset list \<Rightarrow> raw localStorage \<Rightarrow> raw localStorage" where
  "setAssets list ls = storage_set stringify_assets localStorage_setItem ls DB_KEYS_assets list"

definition getRentals :: "raw localStorage \<Rightarrow> rental list" where
  "getRentals ls = storage_get parse_rentals ls DB_KEYS_rentals []"

definition setRentals :: "rental list \<Rightarrow> raw localStorage \<Rightarrow> raw localStorage" where
  "setRentals list ls = storage_set stringify_rentals localStorage_setItem ls DB_KEYS_rentals list"

section \<open>Seeding\<close>

definition day_ms :: int where
  "day_ms = 24 * 60 * 60 * 1000"

definition demoAssets :: "int \<Rightarrow> asset list" where
  "demoAssets now =
    [\<lparr>a_id = ''exc-320-1'', a_name = ''Excavator CAT 320'', a_category = ''Excavator'', a_site = ''Yard A'',
      a_status = Rented, a_lastSeenAt = now, a_quantity = 3\<rparr>,
     \<lparr>a_id = ''exc-320-2'', a_name = ''Excavator CAT 320'', a_category = ''Excavator'', a_site = ''Yard A'',
      a_status = Idle, a_lastSeenAt = now, a_quantity = 3\<rparr>,
     \<lparr>a_id = ''exc-320-3'', a_name = ''Excavator CAT 320'', a_category = ''Excavator'', a_site = ''Yard A'',
      a_status = Idle, a_lastSeenAt = now, a_quantity = 3\<rparr>,
     \<lparr>a_id = ''exc-330-1'', a_name = ''Excavator CAT 330'', a_category = ''Excavator'', a_site = ''Yard B'',
      a_status = Idle, a_lastSeenAt = now, a_quantity = 2\<rparr>,
     \<lparr>a_id = ''exc-330-2'', a_name = ''Excavator CAT 330'', a_category = ''Excavator'', a_site = ''Yard B'',
      a_status = Idle, a_lastSeenAt = now, a_quantity = 2\<rparr>,
     \<lparr>a_id = ''exc-349-1'', a_name = ''Excavator CAT 349'', a_category = ''Excavator'', a_site = ''Yard C'',
      a_status = Idle, a_lastSeenAt = now, a_quantity = 1\<rparr>,
     \<lparr>a_id = ''ldr-950-1'', a_name = ''Wheel Loader CAT 950'', a_category = ''Loader'', a_site = ''Yard A'',
      a_status = Rented, a_lastSeenAt = now, a_quantity = 4\<rparr>,
     \<lparr>a_id = ''ldr-950-2'', a_name = ''Wheel Loader CAT 950'', a_category = ''Loader'', a_site = ''Yard A'',
      a_status = Idle, a_lastSeenAt = now, a_quantity = 4\<rparr>,
     \<lparr>a_id = ''ldr-950-3'', a_name = ''Wheel Loader CAT 950'', a_category = ''Loader'', a_site = ''Yard A'',
      a_status = Idle, a_lastSeenAt = now, a_quantity = 4\<rparr>,
     \<lparr>a_id = ''ldr-950-4'', a_name = ''Wheel Loader CAT 950'', a_category = ''Loader'', a_site = ''Yard A'',
      a_status = Idle, a_lastSeenAt = now, a_quantity = 4\<rparr>,
     \<lparr>a_id = ''ldr-966-1'', a_name = ''Wheel Loader CAT 966'', a_category = ''Loader'', a_site = ''Yard B'',
      a_status = Idle, a_lastSeenAt = now, a_quantity = 2\<rparr>,
     \<lparr>a_id = ''ldr-966-2'', a_name = ''Wheel Loader CAT 966'', a_category = ''Loader'', a_site = ''Yard B'',
      a_status = Idle, a_lastSeenAt = now, a_quantity = 2\<rparr>,
     \<lparr>a_id = ''ldr-980-1'', a_name = ''Wheel Loader CAT 980'', a_category = ''Loader'', a_site = ''Yard C'',
      a_status = Idle, a_lastSeenAt = now, a_quantity = 1\<rparr>,
     \<lparr>a_id = ''dmp-730-1'', a_name = ''Dump Truck CAT 730'', a_category = ''Truck'', a_site = ''Yard A'',
      a_status = Idle, a_lastSeenAt = now, a_quantity = 3\<rparr>,
     \<lparr>a_id = ''dmp-730-2'', a_name = ''Dump Truck CAT 730'', a_category = ''Truck'', a_site = ''Yard A'',
      a_status = Idle, a_lastSeenAt = now, a_quantity = 3\<rparr>,
     \<lparr>a_id = ''dmp-730-3'', a_name = ''Dump Truck CAT 730'', a_category = ''Truck'', a_site = ''Yard A'',
      a_status = Idle, a_lastSeenAt = now, a_quantity = 3\<rparr>,
     \<lparr>a_id = ''dmp-740-1'', a_name = ''Dump Truck CAT 740'', a_category = ''Truck'', a_site = ''Yard B'',
      a_status = Idle, a_lastSeenAt = now, a_quantity = 2\<rparr>,
     \<lparr>a_id = ''dmp-740-2'', a_name = ''Dump Truck CAT 740'', a_category = ''Truck'', a_site = ''Yard B'',
      a_status = Idle, a_lastSeenAt = now, a_quantity = 2\<rparr>,
     \<lparr>a_id = ''dmp-750-1'', a_name = ''Dump Truck CAT 750'', a_category = ''Truck'', a_site = ''Yard C'',
      a_status = Idle, a_lastSeenAt = now, a_quantity = 1\<rparr>,
     \<lparr>a_id = ''blt-d6-1'', a_name = ''Bulldozer CAT D6'', a_category = ''Bulldozer'', a_site = ''Yard A'',
      a_status = Idle, a_lastSeenAt = now, a_quantity = 3\<rparr>,
     \<lparr>a_id = ''blt-d6-2'', a_name = ''Bulldozer CAT D6'', a_category = ''Bulldozer'', a_site = ''Yard A'',
      a_status = Idle, a_lastSeenAt = now, a_quantity = 3\<rparr>,
     \<lparr>a_id = ''blt-d6-3'', a_name = ''Bulldozer CAT D6'', a_category = ''Bulldozer'', a_site = ''Yard A'',
      a_status = Idle, a_lastSeenAt = now, a_quantity = 3\<rparr>,
     \<lparr>a_id = ''blt-d8-1'', a_name = ''Bulldozer CAT D8'', a_category = ''Bulldozer'', a_site = ''Yard B'',
      a_status = Idle, a_lastSeenAt = now, a_quantity = 2\<rparr>,
     \<lparr>a_id = ''blt-d8-2'', a_name = ''Bulldozer CAT D8'', a_category = ''Bulldozer'', a_site = ''Yard B'',
      a_status = Idle, a_lastSeenAt = now, a_quantity = 2\<rparr>,
     \<lparr>a_id = ''blt-d9-1'', a_name = ''Bulldozer CAT D9'', a_category = ''Bulldozer'', a_site = ''Yard C'',
      a_status = Idle, a_lastSeenAt = now, a_quantity = 1\<rparr>,
     \<lparr>a_id = ''crn-120-1'', a_name = ''Crane CAT 120'', a_category = ''Crane'', a_site = ''Yard A'',
      a_status = Idle, a_lastSeenAt = now, a_quantity = 2\<rparr>,
     \<lparr>a_id = ''crn-120-2'', a_name = ''Crane CAT 120'', a_category = ''Crane'', a_site = ''Yard A'',
      a_status = Idle, a_lastSeenAt = now, a_quantity = 2\<rparr>,
     \<lparr>a_id = ''crn-200-1'', a_name = ''Crane CAT 200'', a_category = ''Crane'', a_site = ''Yard B'',
      a_status = Idle, a_lastSeenAt = now, a_quantity = 1\<rparr>,
     \<lparr>a_id = ''gen-150-1'', a_name = ''Generator CAT 150kVA'', a_category = ''Generator'', a_site = ''Yard A'',
      a_status = Idle, a_lastSeenAt = now, a_quantity = 4\<rparr>,
     \<lparr>a_id = ''gen-150-2'', a_name = ''Generator CAT 150kVA'', a_category = ''Generator'', a_site = ''Yard A'',
      a_status = Idle, a_lastSeenAt = now, a_quantity = 4\<rparr>,
     \<lparr>a_id = ''gen-150-3'', a_name = ''Generator CAT 150kVA'', a_category = ''Generator'', a_site = ''Yard A'',
      a_status = Idle, a_lastSeenAt = now, a_quantity = 4\<rparr>,
     \<lparr>a_id = ''gen-150-4'', a_name = ''Generator CAT 150kVA'', a_category = ''Generator'', a_site = ''Yard A'',
      a_status = Idle, a_lastSeenAt = now, a_quantity = 4\<rparr>,
     \<lparr>a_id = ''gen-300-1'', a_name = ''Generator CAT 300kVA'', a_category = ''Generator'', a_site = ''Yard B'',
      a_status = Idle, a_lastSeenAt = now, a_quantity = 2\<rparr>,
     \<lparr>a_id = ''gen-300-2'', a_name = ''Generator CAT 300kVA'', a_category = ''Generator'', a_site = ''Yard B'',
      a_status = Idle, a_lastSeenAt = now, a_quantity = 2\<rparr>,
     \<lparr>a_id = ''gen-500-1'', a_name = ''Generator CAT 500kVA'', a_category = ''Generator'', a_site = ''Yard C'',
      a_status = Idle, a_lastSeenAt = now, a_quantity = 1\<rparr>,
     \<lparr>a_id = ''com-140-1'', a_name = ''Compactor CAT 140'', a_category = ''Compactor'', a_site = ''Yard A'',
      a_status = Idle, a_lastSeenAt = now, a_quantity = 3\<rparr>,
     \<lparr>a_id = ''com-140-2'', a_name = ''Compactor CAT 140'', a_category = ''Compactor'', a_site = ''Yard A'',
      a_status = Idle, a_lastSeenAt = now, a_quantity = 3\<rparr>,
     \<lparr>a_id = ''com-140-3'', a_name = ''Compactor CAT 140'', a_category = ''Compactor'', a_site = ''Yard A'',
      a_status = Idle, a_lastSeenAt = now, a_quantity = 3\<rparr>,
     \<lparr>a_id = ''com-160-1'', a_name = ''Compactor CAT 160'', a_category = ''Compactor'', a_site = ''Yard B'',
      a_status = Idle, a_lastSeenAt = now, a_quantity = 2\<rparr>,
     \<lparr>a_id = ''com-160-2'', a_name = ''Compactor CAT 160'', a_category = ''Compactor'', a_site = ''Yard B'',
      a_status = Idle, a_lastSeenAt = now, a_quantity = 2\<rparr>,
     \<lparr>a_id = ''gra-12-1'', a_name = ''Grader CAT 12'', a_category = ''Grader'', a_site = ''Yard A'',
      a_status = Idle, a_lastSeenAt = now, a_quantity = 3\<rparr>,
     \<lparr>a_id = ''gra-12-2'', a_name = ''Grader CAT 12'', a_category = ''Grader'', a_site = ''Yard A'',
      a_status = Idle, a_lastSeenAt = now, a_quantity = 3\<rparr>,
     \<lparr>a_id = ''gra-12-3'', a_name = ''Grader CAT 12'', a_category = ''Grader'', a_site = ''Yard A'',
      a_status = Idle, a_lastSeenAt = now, a_quantity = 3\<rparr>,
     \<lparr>a_id = ''gra-14-1'', a_name = ''Grader CAT 14'', a_category = ''Grader'', a_site = ''Yard B'',
      a_status = Idle, a_lastSeenAt = now, a_quantity = 2\<rparr>,
     \<lparr>a_id = ''gra-14-2'', a_name = ''Grader CAT 14'', a_category = ''Grader'', a_site = ''Yard B'',
      a_status = Idle, a_lastSeenAt = now, a_quantity = 2\<rparr>,
     \<lparr>a_id = ''gra-16-1'', a_name = ''Grader CAT 16'', a_category = ''Grader'', a_site = ''Yard C'',
      a_status = Idle, a_lastSeenAt = now, a_quantity = 1\<rparr>,
     \<lparr>a_id = ''rol-120-1'', a_name = ''Roller CAT 120'', a_category = ''Roller'', a_site = ''Yard A'',
      a_status = Idle, a_lastSeenAt = now, a_quantity = 4\<rparr>,
     \<lparr>a_id = ''rol-120-2'', a_name = ''Roller CAT 120'', a_category = ''Roller'', a_site = ''Yard A'',
      a_status = Idle, a_lastSeenAt = now, a_quantity = 4\<rparr>,
     \<lparr>a_id = ''rol-120-3'', a_name = ''Roller CAT 120'', a_category = ''Roller'', a_site = ''Yard A'',
      a_status = Idle, a_lastSeenAt = now, a_quantity = 4\<rparr>,
     \<lparr>a_id = ''rol-120-4'', a_name = ''Roller CAT 120'', a_category = ''Roller'', a_site = ''Yard A'',
      a_status = Idle, a_lastSeenAt = now, a_quantity = 4\<rparr>,
     \<lparr>a_id = ''rol-140-1'', a_name = ''Roller CAT 140'', a_category = ''Roller'', a_site = ''Yard B'',
      a_status = Idle, a_lastSeenAt = now, a_quantity = 2\<rparr>,
     \<lparr>a_id = ''rol-140-2'', a_name = ''Roller CAT 140'', a_category = ''Roller'', a_site = ''Yard B'',
      a_status = Idle, a_lastSeenAt = now, a_quantity = 2\<rparr>,
     \<lparr>a_id = ''rol-160-1'', a_name = ''Roller CAT 160'', a_category = ''Roller'', a_site = ''Yard C'',
      a_status = Idle, a_lastSeenAt = now, a_quantity = 1\<rparr>,
     \<lparr>a_id = ''skd-262-1'', a_name = ''Skid Steer CAT 262'', a_category = ''Skid Steer'', a_site = ''Yard A'',
      a_status = Idle, a_lastSeenAt = now, a_quantity = 5\<rparr>,
     \<lparr>a_id = ''skd-262-2'', a_name = ''Skid Steer CAT 262'', a_category = ''Skid Steer'', a_site = ''Yard A'',
      a_status = Idle, a_lastSeenAt = now, a_quantity = 5\<rparr>,
     \<lparr>a_id = ''skd-262-3'', a_name = ''Skid Steer CAT 262'', a_category = ''Skid Steer'', a_site = ''Yard A'',
      a_status = Idle, a_lastSeenAt = now, a_quantity = 5\<rparr>,
     \<lparr>a_id = ''skd-262-4'', a_name = ''Skid Steer CAT 262'', a_category = ''Skid Steer'', a_site = ''Yard A'',
      a_status = Idle, a_lastSeenAt = now, a_quantity = 5\<rparr>,
     \<lparr>a_id = ''skd-262-5'', a_name = ''Skid Steer CAT 262'', a_category = ''Skid Steer'', a_site = ''Yard A'',
      a_status = Idle, a_lastSeenAt = now, a_quantity = 5\<rparr>,
     \<lparr>a_id = ''skd-272-1'', a_name = ''Skid Steer CAT 272'', a_category = ''Skid Steer'', a_site = ''Yard B'',
      a_status = Idle, a_lastSeenAt = now, a_quantity = 3\<rparr>,
     \<lparr>a_id = ''skd-272-2'', a_name = ''Skid Steer CAT 272'', a_category = ''Skid Steer'', a_site = ''Yard B'',
      a_status = Idle, a_lastSeenAt = now, a_quantity = 3\<rparr>,
     \<lparr>a_id = ''skd-272-3'', a_name = ''Skid Steer CAT 272'', a_category = ''Skid Steer'', a_site = ''Yard B'',
      a_status = Idle, a_lastSeenAt = now, a_quantity = 3\<rparr>,
     \<lparr>a_id = ''skd-289-1'', a_name = ''Skid Steer CAT 289'', a_category = ''Skid Steer'', a_site = ''Yard C'',
      a_status = Idle, a_lastSeenAt = now, a_quantity = 2\<rparr>,
     \<lparr>a_id = ''skd-289-2'', a_name = ''Skid Steer CAT 289'', a_category = ''Skid Steer'', a_site = ''Yard C'',
      a_status = Idle, a_lastSeenAt = now, a_quantity = 2\<rparr>]"

definition demoRentals :: "int \<Rightarrow> rental list" where
  "demoRentals now =
    [\<lparr>r_id = ''r_demo1'', r_assetId = ''exc-320-1'', r_site = ''Construction Site A'',
      r_checkOutAt = now - 7 * day_ms, r_checkInAt = now + 2 * day_ms,
      r_customer = \<lparr>c_name = ''John Smith'', c_phone = ''+1-555-0123'',
                     c_email = ''john@construction.com''\<rparr>,
      r_fuelAtStart = 85, r_odometerAtStart = 1250, r_notes = ''Site excavation work'',
      r_createdAt = now - 7 * day_ms, r_returnedAt = None\<rparr>,
     \<lparr>r_id = ''r_demo2'', r_assetId = ''ldr-950-1'', r_site = ''Mining Site B'',
      r_checkOutAt = now - 3 * day_ms, r_checkInAt = now - 1 * day_ms,
      r_customer = \<lparr>c_name = ''Sarah Johnson'', c_phone = ''+1-555-0456'',
                     c_email = ''sarah@mining.com''\<rparr>,
      r_fuelAtStart = 90, r_odometerAtStart = 2100, r_notes = ''Material loading operations'',
      r_createdAt = now - 3 * day_ms, r_returnedAt = None\<rparr>,
     \<lparr>r_id = ''r_demo3'', r_assetId = ''gen-150-1'', r_site = ''Event Center'',
      r_checkOutAt = now - 10 * day_ms, r_checkInAt = now - 8 * day_ms,
      r_customer = \<lparr>c_name = ''Mike Wilson'', c_phone = ''+1-555-0789'',
                     c_email = ''mike@events.com''\<rparr>,
      r_fuelAtStart = 75, r_odometerAtStart = 500, r_notes = ''Backup power for outdoor event'',
      r_createdAt = now - 10 * day_ms, r_returnedAt = Some (now - 7 * day_ms)\<rparr>]"

text \<open>
  \<open>seedIfEmpty()\<close>. Its first statement is \<open>localStorage.clear()\<close>; the emptiness test
  reads the cleared store. The clock is read once (\<open>now\<close>) for the whole call.
\<close>

definition seedIfEmpty :: "int \<Rightarrow> raw localStorage \<Rightarrow> raw localStorage" where
  "seedIfEmpty now ls0 =
     (let ls1 = localStorage_clear ls0;
          assets = storage_get parse_assets ls1 DB_KEYS_assets []
      in if length assets > 0 then ls1
         else
           (let ls2 = storage_set stringify_assets localStorage_setItem ls1 DB_KEYS_assets
                        (demoAssets now);
                ls3 = storage_set stringify_rentals localStorage_setItem ls2 DB_KEYS_rentals
                        (demoRentals now)
            in storage_set stringify_meta localStorage_setItem ls3 DB_KEYS_meta
                 \<lparr>version = APP_VERSION, seededAt = now\<rparr>))"

section \<open>Array helpers of the source\<close>

text \<open>\<open>Array.prototype.findIndex\<close>: the index of the first match, \<open>-1\<close> when there is none.\<close>

fun findIndex :: "('a \<Rightarrow> bool) \<Rightarrow> 'a list \<Rightarrow> int" where
  "findIndex P [] = - 1"
| "findIndex P (x # xs) =
     (if P x then 0
      else (let i = findIndex P xs in if i < 0 then - 1 else i + 1))"

text \<open>
  \<open>Array.prototype.find\<close> returns the first matching object itself, not a copy: an
  assignment to a field of the result changes the array. \<open>assign_found P f xs\<close> is the
  array after \<open>xs.find(P)\<close> has been assigned to by \<open>f\<close>.
\<close>

fun assign_found :: "('a \<Rightarrow> bool) \<Rightarrow> ('a \<Rightarrow> 'a) \<Rightarrow> 'a list \<Rightarrow> 'a list" where
  "assign_found P f [] = []"
| "assign_found P f (x # xs) = (if P x then f x # xs else x # assign_found P f xs)"

text \<open>
  The predicate \<open>r.assetId === assetId && !r.returnedAt\<close> of \<open>handleCheckIn\<close> and
  \<open>renderDashboard\<close>. \<open>returnedAt\<close> is \<open>null\<close> or an ISO date text, which is never
  empty, so \<open>!r.returnedAt\<close> holds exactly for \<open>null\<close>.
\<close>

definition isActiveFor :: "string \<Rightarrow> rental \<Rightarrow> bool" where
  "isActiveFor assetId r \<longleftrightarrow> r_assetId r = assetId \<and> r_returnedAt r = None"

definition hasId :: "string \<Rightarrow> asset \<Rightarrow> bool" where
  "hasId assetId a \<longleftrightarrow> a_id a = assetId"

section \<open>Check-out: the submit handler of the rental form (renderRentForm)\<close>

datatype ui_effect = Alert string | Navigate string | RenderDashboard

text \<open>
  The fields of the submitted form. The two date inputs are given as the instants that
  \<open>new Date(...)\<close> reads from them; an empty number input is \<open>None\<close>
  (\<open>Number(x || 0)\<close> turns it into 0).
\<close>

record rent_form =
  f_assetId :: string
  f_site :: string
  f_checkOutAt :: int
  f_checkInAt :: int
  f_customerName :: string
  f_customerPhone :: string
  f_customerEmail :: string
  f_fuelAtStart :: "int option"
  f_odometerAtStart :: "int option"
  f_notes :: string

definition number_or_0 :: "int option \<Rightarrow> int" where
  "number_or_0 x = (case x of None \<Rightarrow> 0 | Some n \<Rightarrow> n)"

text \<open>
  The rental object the handler builds; \<open>uid\<close> is the result of \<open>uid()\<close>. Each
  handler reads the clock once (\<open>now\<close>) for all the timestamps it writes.
\<close>

definition new_rental :: "rent_form \<Rightarrow> string \<Rightarrow> int \<Rightarrow> rental" where
  "new_rental data uid now =
     \<lparr>r_id = ''r_'' @ uid,
      r_assetId = f_assetId data,
      r_site = f_site data,
      r_checkOutAt = f_checkOutAt data,
      r_checkInAt = f_checkInAt data,
      r_customer = \<lparr>c_name = f_customerName data, c_phone = f_customerPhone data,
                     c_email = f_customerEmail data\<rparr>,
      r_fuelAtStart = number_or_0 (f_fuelAtStart data),
      r_odometerAtStart = number_or_0 (f_odometerAtStart data),
      r_notes = f_notes data,
      r_createdAt = now,
      r_returnedAt = None\<rparr>"

definition mark_rented :: "rental \<Rightarrow> int \<Rightarrow> asset \<Rightarrow> asset" where
  "mark_rented rental now a = a\<lparr>a_status := Rented, a_site := r_site rental, a_lastSeenAt := now\<rparr>"

definition rent_form_submit ::
    "rent_form \<Rightarrow> string \<Rightarrow> int \<Rightarrow> raw localStorage \<Rightarrow> ui_effect \<times> raw localStorage" where
  "rent_form_submit data uid now ls0 =
     (let rental = new_rental data uid now;
          rentals = getRentals ls0;
          ls1 = setRentals (rentals @ [rental]) ls0;
          assets = getAssets ls1;
          idx = findIndex (hasId (r_assetId rental)) assets;
          ls2 = (if idx \<ge> 0
                 then setAssets (assets[nat idx := mark_rented rental now (assets ! nat idx)]) ls1
                 else ls1)
      in (Navigate ''#/dashboard'', ls2))"

section \<open>Check-in (handleCheckIn)\<close>

definition mark_returned :: "int \<Rightarrow> rental \<Rightarrow> rental" where
  "mark_returned now r = r\<lparr>r_returnedAt := Some now\<rparr>"

definition mark_idle :: "int \<Rightarrow> asset \<Rightarrow> asset" where
  "mark_idle now a = a\<lparr>a_status := Idle, a_lastSeenAt := now\<rparr>"

definition handleCheckIn ::
    "string \<Rightarrow> int \<Rightarrow> raw localStorage \<Rightarrow> ui_effect \<times> raw localStorage" where
  "handleCheckIn assetId now ls0 =
     (let rentals = getRentals ls0
      in case find (isActiveFor assetId) rentals of
           None \<Rightarrow> (Alert ''No active rental found for this asset.'', ls0)
         | Some active \<Rightarrow>
             (let ls1 = setRentals (assign_found (isActiveFor assetId) (mark_returned now) rentals) ls0;
                  assets = getAssets ls1;
                  idx = findIndex (hasId assetId) assets;
                  ls2 = (if idx \<ge> 0
                         then setAssets (assets[nat idx := mark_idle now (assets ! nat idx)]) ls1
                         else ls1)
              in (RenderDashboard, ls2)))"

section \<open>Adding equipment: the submit handler of the add-equipment form\<close>

text \<open>
  \<open>e_quantity\<close> is what \<open>parseInt\<close> reads from the quantity input, \<open>None\<close> for
  \<open>NaN\<close>; \<open>parseInt(...) || 1\<close> replaces \<open>NaN\<close> and 0 by 1.

  Three values come from the runtime and are inputs of the handler: \<open>lowered\<close>, the
  result of \<open>formData.get('category').toLowerCase()\<close>; \<open>uid\<close>, the result of
  \<open>uid()\<close>; and the clock \<open>now\<close>. \<open>String.prototype.toLowerCase\<close> follows the Unicode
  case tables and is not redefined here.
\<close>

record equipment_form =
  e_name :: string
  e_category :: string
  e_site :: string
  e_quantity :: "int option"

definition new_asset :: "equipment_form \<Rightarrow> string \<Rightarrow> string \<Rightarrow> int \<Rightarrow> asset" where
  "new_asset formData lowered uid now =
     \<lparr>a_id = lowered @ ''-'' @ uid,
      a_name = e_name formData,
      a_category = e_category formData,
      a_site = e_site formData,
      a_status = Idle,
      a_lastSeenAt = now,
      a_quantity = (case e_quantity formData of
                      None \<Rightarrow> 1
                    | Some q \<Rightarrow> if q = 0 then 1 else q)\<rparr>"

definition add_equipment_submit ::
    "equipment_form \<Rightarrow> string \<Rightarrow> string \<Rightarrow> int \<Rightarrow> raw localStorage
       \<Rightarrow> ui_effect \<times> raw localStorage" where
  "add_equipment_submit formData lowered uid now ls0 =
     (let assets = getAssets ls0
      in (RenderDashboard, setAssets (assets @ [new_asset formData lowered uid now]) ls0))"

section \<open>Derived status (renderRentalHistory, renderDashboard)\<close>

text \<open>
  \<open>Math.ceil(ms / (1000 * 60 * 60 * 24))\<close>. The operands are whole numbers of
  milliseconds far below \<open>2^53\<close>, where the quotient of two doubles rounds to the same
  whole number of days as the exact quotient; the model divides exactly.
\<close>

definition ceil_days :: "int \<Rightarrow> int" where
  "ceil_days ms = \<lceil>real_of_int ms / real_of_int (1000 * 60 * 60 * 24)\<rceil>"

text \<open>The per-rental values of \<open>renderRentalHistory\<close>.\<close>

definition isOverdue :: "int \<Rightarrow> rental \<Rightarrow> bool" where
  "isOverdue now rental \<longleftrightarrow> r_returnedAt rental = None \<and> r_checkInAt rental < now"

definition isReturned :: "rental \<Rightarrow> bool" where
  "isReturned rental \<longleftrightarrow> r_returnedAt rental \<noteq> None"

definition isLate :: "rental \<Rightarrow> bool" where
  "isLate rental \<longleftrightarrow>
     (case r_returnedAt rental of None \<Rightarrow> False | Some t \<Rightarrow> t > r_checkInAt rental)"

definition statusText :: "int \<Rightarrow> rental \<Rightarrow> string" where
  "statusText now rental =
     (if isOverdue now rental then ''OVERDUE''
      else if isReturned rental then (if isLate rental then ''Returned Late'' else ''Returned'')
      else ''Active'')"

definition overdueDays :: "int \<Rightarrow> rental \<Rightarrow> int" where
  "overdueDays now rental =
     (if isOverdue now rental then ceil_days (now - r_checkInAt rental) else 0)"

definition lateDays :: "rental \<Rightarrow> int" where
  "lateDays rental =
     (case r_returnedAt rental of
        None \<Rightarrow> 0
      | Some t \<Rightarrow> if isLate rental then ceil_days (t - r_checkInAt rental) else 0)"

text \<open>The per-asset values of \<open>renderDashboard\<close>.\<close>

definition activeRental :: "rental list \<Rightarrow> asset \<Rightarrow> rental option" where
  "activeRental rentals a = find (isActiveFor (a_id a)) rentals"

definition dashboard_isOverdue :: "int \<Rightarrow> rental list \<Rightarrow> asset \<Rightarrow> bool" where
  "dashboard_isOverdue now rentals a =
     (case activeRental rentals a of None \<Rightarrow> False | Some r \<Rightarrow> r_checkInAt r < now)"

definition dashboard_status :: "int \<Rightarrow> rental list \<Rightarrow> asset \<Rightarrow> string" where
  "dashboard_status now rentals a =
     (case activeRental rentals a of
        None \<Rightarrow> ''Available''
      | Some r \<Rightarrow> if dashboard_isOverdue now rentals a then ''OVERDUE'' else ''Rented'')"

definition dashboard_overdueDays :: "int \<Rightarrow> rental list \<Rightarrow> asset \<Rightarrow> int option" where
  "dashboard_overdueDays now rentals a =
     (case activeRental rentals a of
        None \<Rightarrow> None
      | Some r \<Rightarrow> if dashboard_isOverdue now rentals a
                  then Some (ceil_days (now - r_checkInAt r)) else None)"

text \<open>
  The dashboard renders the Check Out link of an asset only while the asset has no active
  rental (\<open>rentBtn\<close>); otherwise it renders the Check In button.
\<close>

definition offers_check_out :: "raw localStorage \<Rightarrow> string \<Rightarrow> bool" where
  "offers_check_out ls assetId \<longleftrightarrow>
     list_ex (\<lambda>a. a_id a = assetId \<and> activeRental (getRentals ls) a = None) (getAssets ls)"

section \<open>Sequences of user actions\<close>

datatype event =
    AddEquipment equipment_form string string int
  | SubmitRent rent_form string int
  | CheckIn string int

fun step :: "event \<Rightarrow> raw localStorage \<Rightarrow> raw localStorage" where
  "step (AddEquipment formData lowered uid now) ls =
     snd (add_equipment_submit formData lowered uid now ls)"
| "step (SubmitRent data uid now) ls = snd (rent_form_submit data uid now ls)"
| "step (CheckIn assetId now) ls = snd (handleCheckIn assetId now ls)"

fun run :: "raw localStorage \<Rightarrow> event list \<Rightarrow> raw localStorage" where
  "run ls [] = ls"
| "run ls (ev # evs) = run (step ev ls) evs"

definition empty_store :: "raw localStorage" where
  "empty_store = localStorage_clear (\<lambda>key. None)"

definition seeded_store :: "int \<Rightarrow> raw localStorage" where
  "seeded_store now = seedIfEmpty now empty_store"

text \<open>
  Guards on an action, read in the state it is taken in: a check-out that starts from a
  Check Out link of the dashboard, and an added asset whose generated id is not in use.
\<close>

fun from_dashboard_link :: "raw localStorage \<Rightarrow> event \<Rightarrow> bool" where
  "from_dashboard_link ls (SubmitRent data uid now) = offers_check_out ls (f_assetId data)"
| "from_dashboard_link ls ev = True"

fun fresh_asset_id :: "raw localStorage \<Rightarrow> event \<Rightarrow> bool" where
  "fresh_asset_id ls (AddEquipment formData lowered uid now) =
     (a_id (new_asset formData lowered uid now) \<notin> set (map a_id (getAssets ls)))"
| "fresh_asset_id ls ev = True"

fun each_step :: "(raw localStorage \<Rightarrow> event \<Rightarrow> bool) \<Rightarrow> raw localStorage \<Rightarrow> event list \<Rightarrow> bool" where
  "each_step G ls [] = True"
| "each_step G ls (ev # evs) = (G ls ev \<and> each_step G (step ev ls) evs)"

text \<open>The number of active rentals that reference an asset.\<close>

definition active_count :: "string \<Rightarrow> rental list \<Rightarrow> nat" where
  "active_count assetId rentals = length (filter (isActiveFor assetId) rentals)"

text \<open>
  The asset's cached status agrees with the rental list: the asset is rented exactly when
  some rental references it and has no return time.
\<close>

definition status_consistent :: "raw localStorage \<Rightarrow> bool" where
  "status_consistent ls \<longleftrightarrow>
     list_all (\<lambda>a. (a_status a = Rented) = list_ex (isActiveFor (a_id a)) (getRentals ls))
       (getAssets ls)"

text \<open>What the guarded runs keep true of the ledger.\<close>

definition ledger_inv :: "raw localStorage \<Rightarrow> bool" where
  "ledger_inv ls \<longleftrightarrow>
     distinct (map a_id (getAssets ls))
     \<and> (\<forall>k. active_count k (getRentals ls) \<le> 1)
     \<and> (\<forall>a\<in>set (getAssets ls). (a_status a = Rented) = (0 < active_count (a_id a) (getRentals ls)))
     \<and> (\<forall>k. 0 < active_count k (getRentals ls) \<longrightarrow> k \<in> set (map a_id (getAssets ls)))"

section \<open>Example stores and requests\<close>

definition one_asset :: "asset list" where
  "one_asset =
     [\<lparr>a_id = ''pump-1'', a_name = ''Pump'', a_category = ''Pump'', a_site = ''Yard D'',
       a_status = Idle, a_lastSeenAt = 1000, a_quantity = 1\<rparr>]"

definition one_asset_store :: "raw localStorage" where
  "one_asset_store = (\<lambda>key. None)(''srt_assets'' \<mapsto> JSON_assets one_asset)"


text \<open>A request to rent the excavator that the demo data already rents out (\<open>r_demo1\<close>).\<close>

definition excavator_request :: rent_form where
  "excavator_request =
     \<lparr>f_assetId = ''exc-320-1'', f_site = ''Quarry'', f_checkOutAt = 5000, f_checkInAt = 9000,
      f_customerName = ''Ada'', f_customerPhone = ''555'', f_customerEmail = [],
      f_fuelAtStart = None, f_odometerAtStart = Some 12, f_notes = []\<rparr>"

text \<open>A request that names no asset of the demo data.\<close>

definition ghost_request :: rent_form where
  "ghost_request = excavator_request\<lparr>f_assetId := ''no-such-asset''\<rparr>"

text \<open>A request for a demo asset that is idle.\<close>

definition loader_request :: rent_form where
  "loader_request = excavator_request\<lparr>f_assetId := ''ldr-950-2''\<rparr>"

text \<open>A rental that was due at time 1000 and has not come back.\<close>

definition due_rental :: rental where
  "due_rental = (new_rental excavator_request ''u0'' 0)\<lparr>r_checkInAt := 1000\<rparr>"

text \<open>A new piece of equipment, and three user actions on the demo data.\<close>

definition pump_form :: equipment_form where
  "pump_form = \<lparr>e_name = ''Pump 3'', e_category = ''Pump'', e_site = ''Yard D'', e_quantity = None\<rparr>"

definition quiet_day :: "event list" where
  "quiet_day =
     [SubmitRent loader_request ''u1'' 7000,
      CheckIn ''exc-320-1'' 9000,
      AddEquipment pump_form ''pump'' ''k3x9'' 9500]"

text \<open>The excavator of the demo data is rented out a second time, then checked in once.\<close>

definition double_booking :: "event list" where
  "double_booking = [SubmitRent excavator_request ''u1'' 7000]"

definition double_booking_return :: "event list" where
  "double_booking_return = [SubmitRent excavator_request ''u1'' 7000, CheckIn ''exc-320-1'' 9000]"

text \<open>A store in which two assets carry the same id, and a request for that id.\<close>

definition twin_assets :: "asset list" where
  "twin_assets =
     [\<lparr>a_id = ''dup'', a_name = ''Twin A'', a_category = ''Pump'', a_site = ''Yard D'',
       a_status = Idle, a_lastSeenAt = 1000, a_quantity = 1\<rparr>,
      \<lparr>a_id = ''dup'', a_name = ''Twin B'', a_category = ''Pump'', a_site = ''Yard E'',
       a_status = Idle, a_lastSeenAt = 2000, a_quantity = 1\<rparr>]"

definition twin_store :: "raw localStorage" where
  "twin_store = (\<lambda>key. None)(''srt_assets'' \<mapsto> JSON_assets twin_assets)"

definition twin_request :: rent_form where
  "twin_request = excavator_request\<lparr>f_assetId := ''dup''\<rparr>"
section \<open>Facts about the storage layer\<close>

lemma getAssets_setAssets [simp]: "getAssets (setAssets list ls) = list"
  by (simp add: getAssets_def setAssets_def storage_get_def storage_set_def
      stringify_assets_def localStorage_setItem_def)

lemma getRentals_setRentals [simp]: "getRentals (setRentals list ls) = list"
  by (simp add: getRentals_def setRentals_def storage_get_def storage_set_def
      stringify_rentals_def localStorage_setItem_def)

lemma getAssets_setRentals [simp]: "getAssets (setRentals list ls) = getAssets ls"
  by (simp add: getAssets_def setRentals_def storage_get_def storage_set_def
      stringify_rentals_def localStorage_setItem_def DB_KEYS_assets_def DB_KEYS_rentals_def)

lemma getRentals_setAssets [simp]: "getRentals (setAssets list ls) = getRentals ls"
  by (simp add: getRentals_def setAssets_def storage_get_def storage_set_def
      stringify_assets_def localStorage_setItem_def DB_KEYS_assets_def DB_KEYS_rentals_def)

lemma getAssets_empty_store [simp]: "getAssets empty_store = []"
  by (simp add: getAssets_def empty_store_def localStorage_clear_def storage_get_def)

lemma getRentals_empty_store [simp]: "getRentals empty_store = []"
  by (simp add: getRentals_def empty_store_def localStorage_clear_def storage_get_def)

lemma seedIfEmpty_eq:
  "seedIfEmpty now ls =
     (\<lambda>key. None)(DB_KEYS_assets \<mapsto> JSON_assets (demoAssets now),
                  DB_KEYS_rentals \<mapsto> JSON_rentals (demoRentals now),
                  DB_KEYS_meta \<mapsto> JSON_meta \<lparr>version = APP_VERSION, seededAt = now\<rparr>)"
  by (simp add: seedIfEmpty_def localStorage_clear_def storage_get_def storage_set_def
      stringify_assets_def stringify_rentals_def stringify_meta_def localStorage_setItem_def)

lemma getAssets_seedIfEmpty [simp]: "getAssets (seedIfEmpty now ls) = demoAssets now"
  by (simp add: seedIfEmpty_eq getAssets_def storage_get_def
      DB_KEYS_assets_def DB_KEYS_rentals_def DB_KEYS_meta_def)

lemma getRentals_seedIfEmpty [simp]: "getRentals (seedIfEmpty now ls) = demoRentals now"
  by (simp add: seedIfEmpty_eq getRentals_def storage_get_def
      DB_KEYS_assets_def DB_KEYS_rentals_def DB_KEYS_meta_def)

lemma demoAssets_not_Nil: "demoAssets now \<noteq> []"
  by (simp add: demoAssets_def)

section \<open>C9: a failed write leaves the persisted state as it was\<close>

text \<open>
  C9. For every key and value, when \<open>JSON.stringify\<close> throws, or when it returns a text
  and \<open>setItem\<close> throws on it, \<open>storage.set\<close> returns normally and the store, hence what
  is persisted under the key, is what it was before; when both succeed the store is the
  one \<open>setItem\<close> produced, with the whole collection replaced.
\<close>

theorem storage_set_failure_keeps_store:
  "((JSON_stringify v = Inl e \<or> (JSON_stringify v = Inr text \<and> setItem key text ls = Inl e))
      \<longrightarrow> storage_set JSON_stringify setItem ls key v = ls
          \<and> storage_get JSON_parse (storage_set JSON_stringify setItem ls key v) key fallback
              = storage_get JSON_parse ls key fallback)
   \<and> ((JSON_stringify v = Inr text \<and> setItem key text ls = Inr ls')
      \<longrightarrow> storage_set JSON_stringify setItem ls key v = ls')"
  by (auto simp: storage_set_def)

theorem storage_set_failure_keeps_store_witness:
  "storage_set stringify_assets localStorage_setItem_full one_asset_store ''srt_assets'' []
     = one_asset_store
   \<and> storage_get parse_assets
       (storage_set stringify_assets localStorage_setItem_full one_asset_store ''srt_assets'' [])
       ''srt_assets'' [] = one_asset
   \<and> storage_set (stringify_throws :: asset list \<Rightarrow> exn + raw) localStorage_setItem
       one_asset_store ''srt_assets'' [] = one_asset_store
   \<and> storage_get parse_assets
       (storage_set stringify_assets localStorage_setItem one_asset_store ''srt_assets'' [])
       ''srt_assets'' one_asset = []"
proof -
  have quota: "stringify_assets [] = Inr (JSON_assets [])
      \<and> localStorage_setItem_full ''srt_assets'' (JSON_assets []) one_asset_store
          = Inl QuotaExceededError"
    by (simp add: stringify_assets_def localStorage_setItem_full_def)
  have cyclic: "(stringify_throws :: asset list \<Rightarrow> exn + raw) [] = Inl TypeError"
    by (simp add: stringify_throws_def)
  have written: "stringify_assets [] = Inr (JSON_assets [])
      \<and> localStorage_setItem ''srt_assets'' (JSON_assets []) one_asset_store
          = Inr (one_asset_store(''srt_assets'' \<mapsto> JSON_assets []))"
    by (simp add: stringify_assets_def localStorage_setItem_def)
  have old: "storage_get parse_assets one_asset_store ''srt_assets'' [] = one_asset"
    by (simp add: storage_get_def one_asset_store_def)
  from storage_set_failure_keeps_store
         [of stringify_assets "[]" QuotaExceededError "JSON_assets []" localStorage_setItem_full
             "''srt_assets''" one_asset_store parse_assets "[]"]
       storage_set_failure_keeps_store
         [of "stringify_throws :: asset list \<Rightarrow> exn + raw" "[]" TypeError "JSON_assets []"
             localStorage_setItem "''srt_assets''" one_asset_store parse_assets "[]"]
       storage_set_failure_keeps_store
         [of stringify_assets "[]" TypeError "JSON_assets []" localStorage_setItem
             "''srt_assets''" one_asset_store parse_assets "[]"
             "one_asset_store(''srt_assets'' \<mapsto> JSON_assets [])"]
       quota cyclic written old
  show ?thesis
    by (simp add: storage_get_def)
qed

section \<open>C7: seeding a store that already holds assets\<close>

text \<open>
  C7 as stated fails. \<open>seedIfEmpty\<close> begins with \<open>localStorage.clear()\<close>, which the
  source comments as intended (a forced refresh of old data), and the emptiness test reads
  the cleared store: a store that holds one asset and no rentals comes back holding the
  demo assets and the demo rentals.
\<close>

theorem seedIfEmpty_overwrites_nonempty_store:
  "getAssets one_asset_store = one_asset
   \<and> getAssets one_asset_store \<noteq> []
   \<and> getAssets (seedIfEmpty 0 one_asset_store) = demoAssets 0
   \<and> getAssets (seedIfEmpty 0 one_asset_store) \<noteq> getAssets one_asset_store
   \<and> getRentals one_asset_store = []
   \<and> getRentals (seedIfEmpty 0 one_asset_store) \<noteq> getRentals one_asset_store
   \<and> seedIfEmpty 0 one_asset_store \<noteq> one_asset_store"
proof -
  have a: "getAssets one_asset_store = one_asset"
    by (simp add: getAssets_def storage_get_def one_asset_store_def DB_KEYS_assets_def)
  have n: "one_asset \<noteq> []"
    by (simp add: one_asset_def)
  have r: "getRentals one_asset_store = []"
    by (simp add: getRentals_def storage_get_def one_asset_store_def DB_KEYS_rentals_def)
  have d: "demoAssets 0 \<noteq> one_asset"
    by (simp add: demoAssets_def one_asset_def)
  have e: "demoRentals 0 \<noteq> []"
    by (simp add: demoRentals_def)
  have s: "seedIfEmpty 0 one_asset_store \<noteq> one_asset_store"
  proof
    assume "seedIfEmpty 0 one_asset_store = one_asset_store"
    then have "getRentals (seedIfEmpty 0 one_asset_store) = getRentals one_asset_store"
      by (rule arg_cong)
    with r e show False
      by simp
  qed
  show ?thesis
    using a n r d e s by simp
qed

text \<open>
  C7 as amended. For every persisted store, whether or not its asset collection is empty,
  and every time \<open>now\<close>, the seeding operation discards what was persisted and writes the
  demo data: afterwards the store holds the demo assets, the demo rentals and the metadata
  (application version, \<open>seededAt = now\<close>) under their three keys and nothing under any
  other key, so the result is the same as seeding the empty store.
\<close>

theorem seedIfEmpty_always_reseeds:
  "getAssets (seedIfEmpty now ls) = demoAssets now
   \<and> getRentals (seedIfEmpty now ls) = demoRentals now
   \<and> seedIfEmpty now ls DB_KEYS_assets = Some (JSON_assets (demoAssets now))
   \<and> seedIfEmpty now ls DB_KEYS_rentals = Some (JSON_rentals (demoRentals now))
   \<and> seedIfEmpty now ls DB_KEYS_meta = Some (JSON_meta \<lparr>version = APP_VERSION, seededAt = now\<rparr>)
   \<and> (key \<notin> {DB_KEYS_assets, DB_KEYS_rentals, DB_KEYS_meta} \<longrightarrow> seedIfEmpty now ls key = None)
   \<and> seedIfEmpty now ls = seedIfEmpty now empty_store"
proof -
  have keys: "DB_KEYS_assets \<noteq> DB_KEYS_rentals" "DB_KEYS_assets \<noteq> DB_KEYS_meta"
    "DB_KEYS_rentals \<noteq> DB_KEYS_meta"
    by (simp_all add: DB_KEYS_assets_def DB_KEYS_rentals_def DB_KEYS_meta_def)
  have same: "seedIfEmpty now ls = seedIfEmpty now empty_store"
    by (simp only: seedIfEmpty_eq)
  have blobs: "seedIfEmpty now ls DB_KEYS_assets = Some (JSON_assets (demoAssets now))"
    "seedIfEmpty now ls DB_KEYS_rentals = Some (JSON_rentals (demoRentals now))"
    "seedIfEmpty now ls DB_KEYS_meta = Some (JSON_meta \<lparr>version = APP_VERSION, seededAt = now\<rparr>)"
    using keys by (simp_all add: seedIfEmpty_eq)
  have others: "key \<notin> {DB_KEYS_assets, DB_KEYS_rentals, DB_KEYS_meta}
      \<longrightarrow> seedIfEmpty now ls key = None"
    by (simp add: seedIfEmpty_eq)
  show ?thesis
    using same blobs others by simp
qed

theorem seedIfEmpty_always_reseeds_witness:
  "''other_key'' \<notin> {DB_KEYS_assets, DB_KEYS_rentals, DB_KEYS_meta}
   \<and> seedIfEmpty 5 one_asset_store ''other_key'' = None
   \<and> getAssets (seedIfEmpty 5 one_asset_store) = demoAssets 5
   \<and> seedIfEmpty 5 one_asset_store = seedIfEmpty 5 empty_store"
proof -
  have other: "''other_key'' \<notin> {DB_KEYS_assets, DB_KEYS_rentals, DB_KEYS_meta}"
    by (simp add: DB_KEYS_assets_def DB_KEYS_rentals_def DB_KEYS_meta_def)
  from seedIfEmpty_always_reseeds [of 5 one_asset_store "''other_key''"] other
  show ?thesis
    by blast
qed

section \<open>C8: what seeding an empty store produces\<close>

text \<open>
  C8. Seeding the empty store at time \<open>now\<close> gives a non-empty asset list and a non-empty
  rental list, and exactly one of the rentals has no return time and an expected return
  time strictly before \<open>now\<close>.
\<close>

theorem seed_empty_store_one_overdue:
  "getAssets (seedIfEmpty now empty_store) \<noteq> []
   \<and> getRentals (seedIfEmpty now empty_store) \<noteq> []
   \<and> length (filter (isOverdue now) (getRentals (seedIfEmpty now empty_store))) = 1"
proof -
  have "filter (isOverdue now) (demoRentals now) = [demoRentals now ! 1]"
    by (simp add: demoRentals_def isOverdue_def day_ms_def)
  then show ?thesis
    by (simp add: demoAssets_not_Nil) (simp add: demoRentals_def)
qed

section \<open>Facts about the array helpers\<close>

lemma findIndex_neg_iff: "findIndex P xs < 0 \<longleftrightarrow> (\<forall>x\<in>set xs. \<not> P x)"
  by (induction xs) (auto simp: Let_def)

lemma findIndex_first:
  "\<exists>x\<in>set xs. P x \<Longrightarrow>
     0 \<le> findIndex P xs \<and> nat (findIndex P xs) < length xs \<and> P (xs ! nat (findIndex P xs))
     \<and> (\<forall>j < nat (findIndex P xs). \<not> P (xs ! j))"
proof (induction xs)
  case Nil
  then show ?case by simp
next
  case (Cons x xs)
  show ?case
  proof (cases "P x")
    case True
    then show ?thesis by simp
  next
    case False
    with Cons.prems have ex: "\<exists>y\<in>set xs. P y" by simp
    from Cons.IH [OF ex] have ih:
      "0 \<le> findIndex P xs" "nat (findIndex P xs) < length xs"
      "P (xs ! nat (findIndex P xs))" "\<forall>j < nat (findIndex P xs). \<not> P (xs ! j)"
      by simp_all
    have idx: "findIndex P (x # xs) = findIndex P xs + 1"
      using False ih(1) by (simp add: Let_def)
    have n: "nat (findIndex P xs + 1) = Suc (nat (findIndex P xs))"
      using ih(1) by simp
    show ?thesis
      unfolding idx n using ih False by (auto simp: nth_Cons split: nat.splits)
  qed
qed

lemma assign_found_none: "\<forall>x\<in>set xs. \<not> P x \<Longrightarrow> assign_found P f xs = xs"
  by (induction xs) auto

lemma length_assign_found [simp]: "length (assign_found P f xs) = length xs"
  by (induction xs) auto

lemma update_findIndex:
  "\<exists>x\<in>set xs. P x \<Longrightarrow>
     xs[nat (findIndex P xs) := f (xs ! nat (findIndex P xs))] = assign_found P f xs"
proof (induction xs)
  case Nil
  then show ?case by simp
next
  case (Cons x xs)
  show ?case
  proof (cases "P x")
    case True
    then show ?thesis by simp
  next
    case False
    with Cons.prems have ex: "\<exists>y\<in>set xs. P y" by simp
    have pos: "0 \<le> findIndex P xs"
      using findIndex_first [OF ex] by simp
    have idx: "findIndex P (x # xs) = findIndex P xs + 1"
      using False pos by (simp add: Let_def)
    have n: "nat (findIndex P xs + 1) = Suc (nat (findIndex P xs))"
      using pos by simp
    show ?thesis
      unfolding idx n using False Cons.IH [OF ex] by simp
  qed
qed

lemma assign_found_as_update:
  "\<exists>x\<in>set xs. P x \<Longrightarrow>
     \<exists>i<length xs. P (xs ! i) \<and> (\<forall>j<i. \<not> P (xs ! j)) \<and> assign_found P f xs = xs[i := f (xs ! i)]"
  using findIndex_first [of xs P] update_findIndex [of xs P f] by metis

lemma find_None_iff_set: "find P xs = None \<longleftrightarrow> (\<forall>x\<in>set xs. \<not> P x)"
  by (induction xs) auto

lemma find_assign_found:
  "(\<And>x. P x \<Longrightarrow> P (f x)) \<Longrightarrow> find P (assign_found P f xs) = map_option f (find P xs)"
  by (induction xs) auto

lemma filter_assign_found:
  "(\<And>x. P x \<Longrightarrow> \<not> Q x \<and> \<not> Q (f x)) \<Longrightarrow> filter Q (assign_found P f xs) = filter Q xs"
  by (induction xs) auto

lemma map_assign_found:
  "(\<And>x. P x \<Longrightarrow> g (f x) = g x) \<Longrightarrow> map g (assign_found P f xs) = map g xs"
  by (induction xs) auto

lemma assign_found_distinct_map:
  "distinct (map g xs) \<Longrightarrow> (\<And>x. g (f x) = g x) \<Longrightarrow>
     assign_found (\<lambda>x. g x = k) f xs = map (\<lambda>x. if g x = k then f x else x) xs"
proof (induction xs)
  case Nil
  then show ?case by simp
next
  case (Cons x xs)
  show ?case
  proof (cases "g x = k")
    case True
    with Cons.prems(1) have "k \<notin> g ` set xs" by simp
    then have "\<forall>y\<in>set xs. g y \<noteq> k" by blast
    then have "map (\<lambda>x. if g x = k then f x else x) xs = xs"
      by (simp add: map_idI)
    with True show ?thesis by simp
  next
    case False
    with Cons show ?thesis by simp
  qed
qed

lemma length_filter_assign_found_self:
  "(\<And>x. \<not> P (f x)) \<Longrightarrow>
     length (filter P (assign_found P f xs)) = length (filter P xs) - 1"
  by (induction xs) auto

lemma list_ex_filter_conv: "list_ex Q xs \<longleftrightarrow> 0 < length (filter Q xs)"
  by (induction xs) auto
section \<open>What each handler leaves in the store\<close>

lemma getRentals_rent_form_submit:
  "getRentals (snd (rent_form_submit data uid now ls)) = getRentals ls @ [new_rental data uid now]"
  by (simp add: rent_form_submit_def Let_def)

lemma r_assetId_new_rental [simp]: "r_assetId (new_rental data uid now) = f_assetId data"
  by (simp add: new_rental_def)

lemma r_site_new_rental [simp]: "r_site (new_rental data uid now) = f_site data"
  by (simp add: new_rental_def)

lemma r_returnedAt_new_rental [simp]: "r_returnedAt (new_rental data uid now) = None"
  by (simp add: new_rental_def)

lemma rent_form_submit_found:
  assumes "\<exists>a\<in>set (getAssets ls). hasId (f_assetId data) a"
  shows "snd (rent_form_submit data uid now ls)
     = setAssets (assign_found (hasId (f_assetId data)) (mark_rented (new_rental data uid now) now)
         (getAssets ls)) (setRentals (getRentals ls @ [new_rental data uid now]) ls)"
proof -
  have pos: "0 \<le> findIndex (hasId (f_assetId data)) (getAssets ls)"
    using findIndex_first [OF assms] by simp
  have upd: "(getAssets ls)[nat (findIndex (hasId (f_assetId data)) (getAssets ls)) :=
            mark_rented (new_rental data uid now) now
              (getAssets ls ! nat (findIndex (hasId (f_assetId data)) (getAssets ls)))]
          = assign_found (hasId (f_assetId data)) (mark_rented (new_rental data uid now) now)
              (getAssets ls)"
    by (rule update_findIndex [OF assms])
  show ?thesis
    unfolding rent_form_submit_def Let_def
    by (simp add: pos upd)
qed

lemma rent_form_submit_not_found:
  assumes "\<forall>a\<in>set (getAssets ls). \<not> hasId (f_assetId data) a"
  shows "snd (rent_form_submit data uid now ls)
     = setRentals (getRentals ls @ [new_rental data uid now]) ls"
proof -
  have neg: "\<not> 0 \<le> findIndex (hasId (f_assetId data)) (getAssets ls)"
    using assms findIndex_neg_iff [of "hasId (f_assetId data)" "getAssets ls"] by simp
  show ?thesis
    unfolding rent_form_submit_def Let_def
    by (simp add: neg)
qed

lemma getAssets_rent_form_submit:
  "getAssets (snd (rent_form_submit data uid now ls))
     = assign_found (hasId (f_assetId data)) (mark_rented (new_rental data uid now) now)
         (getAssets ls)"
proof (cases "\<exists>a\<in>set (getAssets ls). hasId (f_assetId data) a")
  case True
  then show ?thesis
    by (simp add: rent_form_submit_found)
next
  case False
  then show ?thesis
    by (simp add: rent_form_submit_not_found assign_found_none)
qed

lemma fst_rent_form_submit: "fst (rent_form_submit data uid now ls) = Navigate ''#/dashboard''"
  by (simp add: rent_form_submit_def Let_def)

lemma handleCheckIn_none:
  "\<forall>r\<in>set (getRentals ls). \<not> isActiveFor assetId r \<Longrightarrow>
     handleCheckIn assetId now ls = (Alert ''No active rental found for this asset.'', ls)"
  by (simp add: handleCheckIn_def find_None_iff_set [symmetric])

lemma fst_handleCheckIn_some:
  "\<exists>r\<in>set (getRentals ls). isActiveFor assetId r \<Longrightarrow>
     fst (handleCheckIn assetId now ls) = RenderDashboard"
  by (auto simp: handleCheckIn_def Let_def find_None_iff_set split: option.splits)


lemma handleCheckIn_some:
  assumes "\<exists>r\<in>set (getRentals ls). isActiveFor assetId r"
  shows "snd (handleCheckIn assetId now ls) =
     (let ls1 = setRentals (assign_found (isActiveFor assetId) (mark_returned now) (getRentals ls)) ls
      in if \<exists>a\<in>set (getAssets ls). hasId assetId a
         then setAssets (assign_found (hasId assetId) (mark_idle now) (getAssets ls)) ls1
         else ls1)"
proof -
  obtain active where found: "find (isActiveFor assetId) (getRentals ls) = Some active"
    using assms find_None_iff_set [of "isActiveFor assetId" "getRentals ls"] by auto
  show ?thesis
  proof (cases "\<exists>a\<in>set (getAssets ls). hasId assetId a")
    case True
    have pos: "0 \<le> findIndex (hasId assetId) (getAssets ls)"
      using findIndex_first [OF True] by simp
    have upd: "(getAssets ls)[nat (findIndex (hasId assetId) (getAssets ls)) :=
            mark_idle now (getAssets ls ! nat (findIndex (hasId assetId) (getAssets ls)))]
          = assign_found (hasId assetId) (mark_idle now) (getAssets ls)"
      by (rule update_findIndex [OF True])
    show ?thesis
      unfolding handleCheckIn_def Let_def
      by (simp add: found pos upd True)
  next
    case False
    have neg: "\<not> 0 \<le> findIndex (hasId assetId) (getAssets ls)"
      using False findIndex_neg_iff [of "hasId assetId" "getAssets ls"] by simp
    show ?thesis
      unfolding handleCheckIn_def Let_def
      using False by (simp add: found neg)
  qed
qed

lemma getAssets_handleCheckIn:
  "getAssets (snd (handleCheckIn assetId now ls))
     = (if \<exists>r\<in>set (getRentals ls). isActiveFor assetId r
        then assign_found (hasId assetId) (mark_idle now) (getAssets ls)
        else getAssets ls)"
proof (cases "\<exists>r\<in>set (getRentals ls). isActiveFor assetId r")
  case False
  then show ?thesis
    by (simp add: handleCheckIn_none)
next
  case True
  show ?thesis
  proof (cases "\<exists>a\<in>set (getAssets ls). hasId assetId a")
    case ex: True
    then show ?thesis
      using True by (simp add: handleCheckIn_some Let_def)
  next
    case no: False
    then show ?thesis
      using True by (simp add: handleCheckIn_some Let_def assign_found_none)
  qed
qed

lemma getRentals_handleCheckIn:
  "getRentals (snd (handleCheckIn assetId now ls))
     = assign_found (isActiveFor assetId) (mark_returned now) (getRentals ls)"
proof (cases "\<exists>r\<in>set (getRentals ls). isActiveFor assetId r")
  case False
  then show ?thesis
    by (simp add: handleCheckIn_none assign_found_none)
next
  case True
  then show ?thesis
    by (simp add: handleCheckIn_some Let_def)
qed

lemma getAssets_add_equipment_submit:
  "getAssets (snd (add_equipment_submit formData lowered uid now ls))
     = getAssets ls @ [new_asset formData lowered uid now]"
  by (simp add: add_equipment_submit_def Let_def)

lemma getRentals_add_equipment_submit:
  "getRentals (snd (add_equipment_submit formData lowered uid now ls)) = getRentals ls"
  by (simp add: add_equipment_submit_def Let_def)

section \<open>C10: check-out for an id that no asset has\<close>

text \<open>
  C10. For every store and every check-out request whose \<open>assetId\<close> is the id of no asset
  in the asset list, the handler raises nothing and navigates to the dashboard; the rental
  list is the old one with the new rental appended, which is active and references that
  id; the asset list and the text persisted under the assets key are unchanged.
\<close>

theorem check_out_unknown_asset:
  assumes "\<forall>a\<in>set (getAssets ls). a_id a \<noteq> f_assetId data"
  shows "fst (rent_form_submit data uid now ls) = Navigate ''#/dashboard''
    \<and> getRentals (snd (rent_form_submit data uid now ls))
        = getRentals ls @ [new_rental data uid now]
    \<and> isActiveFor (f_assetId data) (new_rental data uid now)
    \<and> getAssets (snd (rent_form_submit data uid now ls)) = getAssets ls
    \<and> snd (rent_form_submit data uid now ls) DB_KEYS_assets = ls DB_KEYS_assets"
proof -
  from assms have no: "\<forall>a\<in>set (getAssets ls). \<not> hasId (f_assetId data) a"
    by (simp add: hasId_def)
  have "snd (rent_form_submit data uid now ls) DB_KEYS_assets = ls DB_KEYS_assets"
    by (simp add: rent_form_submit_not_found [OF no] setRentals_def storage_set_def
        stringify_rentals_def localStorage_setItem_def DB_KEYS_assets_def DB_KEYS_rentals_def)
  moreover have "isActiveFor (f_assetId data) (new_rental data uid now)"
    by (simp add: isActiveFor_def)
  ultimately show ?thesis
    using no
    by (simp add: fst_rent_form_submit getRentals_rent_form_submit getAssets_rent_form_submit
        assign_found_none)
qed

theorem check_out_unknown_asset_witness:
  "\<not> list_ex (hasId (f_assetId ghost_request)) (getAssets (seeded_store 0))
   \<and> getRentals (snd (rent_form_submit ghost_request ''u1'' 7000 (seeded_store 0)))
       = demoRentals 0 @ [new_rental ghost_request ''u1'' 7000]
   \<and> getAssets (snd (rent_form_submit ghost_request ''u1'' 7000 (seeded_store 0)))
       = demoAssets 0"
proof -
  have no: "\<forall>a\<in>set (getAssets (seeded_store 0)). a_id a \<noteq> f_assetId ghost_request"
    by (simp add: seeded_store_def demoAssets_def ghost_request_def excavator_request_def)
  from check_out_unknown_asset [OF no, of "''u1''" 7000] no
  show ?thesis
    by (simp add: seeded_store_def list_ex_iff hasId_def)
qed

section \<open>C1: check-out for an asset that is already rented out\<close>

text \<open>
  C1 as stated fails on the demo data: the excavator \<open>exc-320-1\<close> has the active rental
  \<open>r_demo1\<close>, and a check-out request for it is not refused. The handler navigates to
  the dashboard and the rental list has grown by the new rental.
\<close>

theorem check_out_not_refused_counterexample:
  "list_ex (isActiveFor (f_assetId excavator_request)) (getRentals (seeded_store 0))
   \<and> fst (rent_form_submit excavator_request ''u1'' 7000 (seeded_store 0))
       = Navigate ''#/dashboard''
   \<and> getRentals (snd (rent_form_submit excavator_request ''u1'' 7000 (seeded_store 0)))
       = getRentals (seeded_store 0) @ [new_rental excavator_request ''u1'' 7000]
   \<and> snd (rent_form_submit excavator_request ''u1'' 7000 (seeded_store 0)) \<noteq> seeded_store 0"
proof -
  have active: "list_ex (isActiveFor (f_assetId excavator_request)) (getRentals (seeded_store 0))"
    by (simp add: seeded_store_def demoRentals_def isActiveFor_def excavator_request_def)
  have grown: "getRentals (snd (rent_form_submit excavator_request ''u1'' 7000 (seeded_store 0)))
       = getRentals (seeded_store 0) @ [new_rental excavator_request ''u1'' 7000]"
    by (rule getRentals_rent_form_submit)
  have "getRentals (snd (rent_form_submit excavator_request ''u1'' 7000 (seeded_store 0)))
       \<noteq> getRentals (seeded_store 0)"
    unfolding grown by simp
  then have "snd (rent_form_submit excavator_request ''u1'' 7000 (seeded_store 0)) \<noteq> seeded_store 0"
    by auto
  with active grown show ?thesis
    by (simp add: fst_rent_form_submit)
qed

text \<open>
  C1 as amended. For every store and every check-out request (its two date fields hold
  valid dates), whether or not the target asset has an active rental, the handler raises
  nothing and navigates to the dashboard; the rental list is the old one with the new
  rental appended. When no asset of the list has the requested id the asset list is
  unchanged; otherwise the asset list is the old one with exactly one entry replaced, the
  first asset with the requested id, which gets status rented, the site of the rental and
  the current time. Every other asset, also a later one with the same id, is as before.
\<close>

theorem check_out_always_appends:
  "fst (rent_form_submit data uid now ls) = Navigate ''#/dashboard''
   \<and> getRentals (snd (rent_form_submit data uid now ls))
       = getRentals ls @ [new_rental data uid now]
   \<and> ((\<forall>a\<in>set (getAssets ls). a_id a \<noteq> f_assetId data) \<longrightarrow>
         getAssets (snd (rent_form_submit data uid now ls)) = getAssets ls)
   \<and> ((\<exists>a\<in>set (getAssets ls). a_id a = f_assetId data) \<longrightarrow>
         (\<exists>i<length (getAssets ls).
            a_id (getAssets ls ! i) = f_assetId data
            \<and> (\<forall>j<i. a_id (getAssets ls ! j) \<noteq> f_assetId data)
            \<and> getAssets (snd (rent_form_submit data uid now ls))
                = (getAssets ls)[i := (getAssets ls ! i)
                    \<lparr>a_status := Rented, a_site := f_site data, a_lastSeenAt := now\<rparr>]))
   \<and> (\<forall>a. find (hasId (f_assetId data)) (getAssets ls) = Some a \<longrightarrow>
         find (hasId (f_assetId data)) (getAssets (snd (rent_form_submit data uid now ls)))
           = Some (a\<lparr>a_status := Rented, a_site := f_site data, a_lastSeenAt := now\<rparr>))
   \<and> filter (\<lambda>a. a_id a \<noteq> f_assetId data) (getAssets (snd (rent_form_submit data uid now ls)))
       = filter (\<lambda>a. a_id a \<noteq> f_assetId data) (getAssets ls)
   \<and> map a_id (getAssets (snd (rent_form_submit data uid now ls))) = map a_id (getAssets ls)"
proof -
  have keep: "\<And>a. hasId (f_assetId data) a
      \<Longrightarrow> hasId (f_assetId data) (mark_rented (new_rental data uid now) now a)"
    by (simp add: hasId_def mark_rented_def)
  have first: "find (hasId (f_assetId data))
        (assign_found (hasId (f_assetId data)) (mark_rented (new_rental data uid now) now)
           (getAssets ls))
      = map_option (mark_rented (new_rental data uid now) now)
          (find (hasId (f_assetId data)) (getAssets ls))"
    by (rule find_assign_found) (rule keep)
  have found: "\<And>a. find (hasId (f_assetId data)) (getAssets ls) = Some a \<Longrightarrow>
      find (hasId (f_assetId data)) (getAssets (snd (rent_form_submit data uid now ls)))
        = Some (a\<lparr>a_status := Rented, a_site := f_site data, a_lastSeenAt := now\<rparr>)"
    by (simp add: getAssets_rent_form_submit first mark_rented_def)
  have others: "filter (\<lambda>a. a_id a \<noteq> f_assetId data)
        (getAssets (snd (rent_form_submit data uid now ls)))
      = filter (\<lambda>a. a_id a \<noteq> f_assetId data) (getAssets ls)"
    unfolding getAssets_rent_form_submit
    by (rule filter_assign_found) (simp add: hasId_def mark_rented_def)
  have ids: "map a_id (getAssets (snd (rent_form_submit data uid now ls))) = map a_id (getAssets ls)"
    unfolding getAssets_rent_form_submit
    by (rule map_assign_found) (simp add: hasId_def mark_rented_def)
  have absent: "(\<forall>a\<in>set (getAssets ls). a_id a \<noteq> f_assetId data) \<longrightarrow>
      getAssets (snd (rent_form_submit data uid now ls)) = getAssets ls"
    by (simp add: getAssets_rent_form_submit assign_found_none hasId_def)
  have present: "(\<exists>a\<in>set (getAssets ls). a_id a = f_assetId data) \<longrightarrow>
      (\<exists>i<length (getAssets ls).
         a_id (getAssets ls ! i) = f_assetId data
         \<and> (\<forall>j<i. a_id (getAssets ls ! j) \<noteq> f_assetId data)
         \<and> getAssets (snd (rent_form_submit data uid now ls))
             = (getAssets ls)[i := (getAssets ls ! i)
                 \<lparr>a_status := Rented, a_site := f_site data, a_lastSeenAt := now\<rparr>])"
  proof
    assume "\<exists>a\<in>set (getAssets ls). a_id a = f_assetId data"
    then have ex: "\<exists>a\<in>set (getAssets ls). hasId (f_assetId data) a"
      by (simp add: hasId_def)
    from assign_found_as_update
           [OF ex, where f = "mark_rented (new_rental data uid now) now"]
    obtain i where len: "i < length (getAssets ls)"
      and at: "hasId (f_assetId data) (getAssets ls ! i)"
      and before: "\<forall>j<i. \<not> hasId (f_assetId data) (getAssets ls ! j)"
      and upd: "assign_found (hasId (f_assetId data)) (mark_rented (new_rental data uid now) now)
            (getAssets ls)
          = (getAssets ls)[i := mark_rented (new_rental data uid now) now (getAssets ls ! i)]"
      by blast
    have assets: "getAssets (snd (rent_form_submit data uid now ls))
        = (getAssets ls)[i := (getAssets ls ! i)
            \<lparr>a_status := Rented, a_site := f_site data, a_lastSeenAt := now\<rparr>]"
      unfolding getAssets_rent_form_submit upd by (simp add: mark_rented_def)
    have "a_id (getAssets ls ! i) = f_assetId data"
      using at by (simp add: hasId_def)
    moreover have "\<forall>j<i. a_id (getAssets ls ! j) \<noteq> f_assetId data"
      using before by (simp add: hasId_def)
    ultimately show "\<exists>i<length (getAssets ls).
         a_id (getAssets ls ! i) = f_assetId data
         \<and> (\<forall>j<i. a_id (getAssets ls ! j) \<noteq> f_assetId data)
         \<and> getAssets (snd (rent_form_submit data uid now ls))
             = (getAssets ls)[i := (getAssets ls ! i)
                 \<lparr>a_status := Rented, a_site := f_site data, a_lastSeenAt := now\<rparr>]"
      using len assets by blast
  qed
  show ?thesis
    using found others ids absent present
    by (simp add: fst_rent_form_submit getRentals_rent_form_submit)
qed

theorem check_out_always_appends_witness:
  "find (hasId (f_assetId loader_request)) (getAssets (seeded_store 0))
     = Some \<lparr>a_id = ''ldr-950-2'', a_name = ''Wheel Loader CAT 950'', a_category = ''Loader'',
             a_site = ''Yard A'', a_status = Idle, a_lastSeenAt = 0, a_quantity = 4\<rparr>
   \<and> find (hasId (f_assetId loader_request))
         (getAssets (snd (rent_form_submit loader_request ''u1'' 7000 (seeded_store 0))))
     = Some \<lparr>a_id = ''ldr-950-2'', a_name = ''Wheel Loader CAT 950'', a_category = ''Loader'',
             a_site = ''Quarry'', a_status = Rented, a_lastSeenAt = 7000, a_quantity = 4\<rparr>
   \<and> getRentals (snd (rent_form_submit loader_request ''u1'' 7000 (seeded_store 0)))
     = demoRentals 0 @ [new_rental loader_request ''u1'' 7000]
   \<and> list_ex (hasId (f_assetId twin_request)) (getAssets twin_store)
   \<and> getAssets (snd (rent_form_submit twin_request ''u2'' 8000 twin_store))
     = [\<lparr>a_id = ''dup'', a_name = ''Twin A'', a_category = ''Pump'', a_site = ''Quarry'',
         a_status = Rented, a_lastSeenAt = 8000, a_quantity = 1\<rparr>,
        \<lparr>a_id = ''dup'', a_name = ''Twin B'', a_category = ''Pump'', a_site = ''Yard E'',
         a_status = Idle, a_lastSeenAt = 2000, a_quantity = 1\<rparr>]
   \<and> \<not> list_ex (hasId (f_assetId ghost_request)) (getAssets twin_store)
   \<and> getAssets (snd (rent_form_submit ghost_request ''u3'' 8500 twin_store)) = twin_assets"
proof -
  have before: "find (hasId (f_assetId loader_request)) (getAssets (seeded_store 0))
     = Some \<lparr>a_id = ''ldr-950-2'', a_name = ''Wheel Loader CAT 950'', a_category = ''Loader'',
             a_site = ''Yard A'', a_status = Idle, a_lastSeenAt = 0, a_quantity = 4\<rparr>"
    by (simp add: seeded_store_def demoAssets_def hasId_def loader_request_def
        excavator_request_def)
  have site: "f_site loader_request = ''Quarry''"
    by (simp add: loader_request_def excavator_request_def)
  from check_out_always_appends [of loader_request "''u1''" 7000 "seeded_store 0"] before site
  have loader: "find (hasId (f_assetId loader_request))
         (getAssets (snd (rent_form_submit loader_request ''u1'' 7000 (seeded_store 0))))
     = Some \<lparr>a_id = ''ldr-950-2'', a_name = ''Wheel Loader CAT 950'', a_category = ''Loader'',
             a_site = ''Quarry'', a_status = Rented, a_lastSeenAt = 7000, a_quantity = 4\<rparr>
   \<and> getRentals (snd (rent_form_submit loader_request ''u1'' 7000 (seeded_store 0)))
     = demoRentals 0 @ [new_rental loader_request ''u1'' 7000]"
    by (simp add: seeded_store_def)
  have twins: "getAssets twin_store = twin_assets"
    by (simp add: getAssets_def storage_get_def twin_store_def DB_KEYS_assets_def)
  have target: "f_assetId twin_request = ''dup''" and tsite: "f_site twin_request = ''Quarry''"
    by (simp_all add: twin_request_def excavator_request_def)
  have ghost: "f_assetId ghost_request = ''no-such-asset''"
    by (simp add: ghost_request_def excavator_request_def)
  have listed: "\<exists>a\<in>set (getAssets twin_store). a_id a = f_assetId twin_request"
    by (simp add: twins target twin_assets_def)
  have unlisted: "\<forall>a\<in>set (getAssets twin_store). a_id a \<noteq> f_assetId ghost_request"
    by (simp add: twins ghost twin_assets_def)
  have head: "a_id (getAssets twin_store ! 0) = f_assetId twin_request"
    by (simp add: twins target twin_assets_def)
  from check_out_always_appends [of twin_request "''u2''" 8000 twin_store] listed
  obtain i where
    i: "\<forall>j<i. a_id (getAssets twin_store ! j) \<noteq> f_assetId twin_request"
       "getAssets (snd (rent_form_submit twin_request ''u2'' 8000 twin_store))
          = (getAssets twin_store)[i := (getAssets twin_store ! i)
              \<lparr>a_status := Rented, a_site := f_site twin_request, a_lastSeenAt := 8000\<rparr>]"
    by blast
  from i(1) head have "i = 0"
    by (cases i) auto
  with i(2) have twin: "getAssets (snd (rent_form_submit twin_request ''u2'' 8000 twin_store))
     = [\<lparr>a_id = ''dup'', a_name = ''Twin A'', a_category = ''Pump'', a_site = ''Quarry'',
         a_status = Rented, a_lastSeenAt = 8000, a_quantity = 1\<rparr>,
        \<lparr>a_id = ''dup'', a_name = ''Twin B'', a_category = ''Pump'', a_site = ''Yard E'',
         a_status = Idle, a_lastSeenAt = 2000, a_quantity = 1\<rparr>]"
    by (simp add: twins tsite twin_assets_def)
  from check_out_always_appends [of ghost_request "''u3''" 8500 twin_store] unlisted
  have none: "getAssets (snd (rent_form_submit ghost_request ''u3'' 8500 twin_store)) = twin_assets"
    by (simp add: twins)
  have l1: "list_ex (hasId (f_assetId twin_request)) (getAssets twin_store)"
    using listed by (simp add: list_ex_iff hasId_def)
  have l2: "\<not> list_ex (hasId (f_assetId ghost_request)) (getAssets twin_store)"
    using unlisted by (simp add: list_ex_iff hasId_def)
  from before loader twin none l1 l2 show ?thesis
    by blast
qed

section \<open>C4: check-in\<close>

text \<open>
  C4. For every store, asset id and time \<open>now\<close>: when no rental with that asset id has
  \<open>returnedAt = null\<close>, check-in alerts the user and returns with the store as it was;
  otherwise it re-renders the dashboard, the first active rental of that asset gets
  \<open>returnedAt = now\<close> and no other rental changes, and the first asset with that id, when
  there is one, gets status idle (and \<open>now\<close> as the time it was last seen) while every
  other asset is as before.
\<close>

theorem check_in_behaviour:
  "((\<forall>r\<in>set (getRentals ls). \<not> isActiveFor assetId r) \<longrightarrow>
       handleCheckIn assetId now ls = (Alert ''No active rental found for this asset.'', ls))
   \<and> ((\<exists>r\<in>set (getRentals ls). isActiveFor assetId r) \<longrightarrow>
       fst (handleCheckIn assetId now ls) = RenderDashboard
       \<and> (\<exists>i<length (getRentals ls).
             isActiveFor assetId (getRentals ls ! i)
             \<and> (\<forall>j<i. \<not> isActiveFor assetId (getRentals ls ! j))
             \<and> getRentals (snd (handleCheckIn assetId now ls))
                 = (getRentals ls)[i := (getRentals ls ! i)\<lparr>r_returnedAt := Some now\<rparr>])
       \<and> (\<forall>a. find (hasId assetId) (getAssets ls) = Some a \<longrightarrow>
             find (hasId assetId) (getAssets (snd (handleCheckIn assetId now ls)))
               = Some (a\<lparr>a_status := Idle, a_lastSeenAt := now\<rparr>))
       \<and> filter (\<lambda>a. a_id a \<noteq> assetId) (getAssets (snd (handleCheckIn assetId now ls)))
           = filter (\<lambda>a. a_id a \<noteq> assetId) (getAssets ls)
       \<and> map a_id (getAssets (snd (handleCheckIn assetId now ls))) = map a_id (getAssets ls))"
proof (intro conjI impI)
  assume "\<forall>r\<in>set (getRentals ls). \<not> isActiveFor assetId r"
  then show "handleCheckIn assetId now ls = (Alert ''No active rental found for this asset.'', ls)"
    by (rule handleCheckIn_none)
next
  assume ex: "\<exists>r\<in>set (getRentals ls). isActiveFor assetId r"
  show "fst (handleCheckIn assetId now ls) = RenderDashboard"
    using ex by (rule fst_handleCheckIn_some)
  show "\<exists>i<length (getRentals ls).
          isActiveFor assetId (getRentals ls ! i)
          \<and> (\<forall>j<i. \<not> isActiveFor assetId (getRentals ls ! j))
          \<and> getRentals (snd (handleCheckIn assetId now ls))
              = (getRentals ls)[i := (getRentals ls ! i)\<lparr>r_returnedAt := Some now\<rparr>]"
    using assign_found_as_update [OF ex, where f = "mark_returned now"]
    by (simp add: getRentals_handleCheckIn mark_returned_def)
  have keep: "\<And>a. hasId assetId a \<Longrightarrow> hasId assetId (mark_idle now a)"
    by (simp add: hasId_def mark_idle_def)
  have first: "find (hasId assetId) (assign_found (hasId assetId) (mark_idle now) (getAssets ls))
      = map_option (mark_idle now) (find (hasId assetId) (getAssets ls))"
    by (rule find_assign_found) (rule keep)
  show "\<forall>a. find (hasId assetId) (getAssets ls) = Some a \<longrightarrow>
          find (hasId assetId) (getAssets (snd (handleCheckIn assetId now ls)))
            = Some (a\<lparr>a_status := Idle, a_lastSeenAt := now\<rparr>)"
    using ex by (simp add: getAssets_handleCheckIn first mark_idle_def)
  have assets: "getAssets (snd (handleCheckIn assetId now ls))
      = assign_found (hasId assetId) (mark_idle now) (getAssets ls)"
    using ex by (simp add: getAssets_handleCheckIn)
  show "filter (\<lambda>a. a_id a \<noteq> assetId) (getAssets (snd (handleCheckIn assetId now ls)))
      = filter (\<lambda>a. a_id a \<noteq> assetId) (getAssets ls)"
    unfolding assets
    by (rule filter_assign_found) (simp add: hasId_def mark_idle_def)
  show "map a_id (getAssets (snd (handleCheckIn assetId now ls))) = map a_id (getAssets ls)"
    unfolding assets
    by (rule map_assign_found) (simp add: hasId_def mark_idle_def)
qed

theorem check_in_behaviour_witness:
  "\<not> list_ex (isActiveFor ''exc-320-2'') (getRentals (seeded_store 0))
   \<and> handleCheckIn ''exc-320-2'' 9000 (seeded_store 0)
       = (Alert ''No active rental found for this asset.'', seeded_store 0)
   \<and> list_ex (isActiveFor ''exc-320-1'') (getRentals (seeded_store 0))
   \<and> fst (handleCheckIn ''exc-320-1'' 9000 (seeded_store 0)) = RenderDashboard
   \<and> getRentals (snd (handleCheckIn ''exc-320-1'' 9000 (seeded_store 0)))
       = (demoRentals 0)[0 := (demoRentals 0 ! 0)\<lparr>r_returnedAt := Some 9000\<rparr>]
   \<and> find (hasId ''exc-320-1'') (getAssets (snd (handleCheckIn ''exc-320-1'' 9000 (seeded_store 0))))
       = Some \<lparr>a_id = ''exc-320-1'', a_name = ''Excavator CAT 320'', a_category = ''Excavator'',
               a_site = ''Yard A'', a_status = Idle, a_lastSeenAt = 9000, a_quantity = 3\<rparr>"
proof -
  have none: "\<forall>r\<in>set (getRentals (seeded_store 0)). \<not> isActiveFor ''exc-320-2'' r"
    by (simp add: seeded_store_def demoRentals_def isActiveFor_def)
  have some: "\<exists>r\<in>set (getRentals (seeded_store 0)). isActiveFor ''exc-320-1'' r"
    by (simp add: seeded_store_def demoRentals_def isActiveFor_def)
  have first: "isActiveFor ''exc-320-1'' (getRentals (seeded_store 0) ! 0)"
    by (simp add: seeded_store_def demoRentals_def isActiveFor_def)
  have before: "find (hasId ''exc-320-1'') (getAssets (seeded_store 0))
     = Some \<lparr>a_id = ''exc-320-1'', a_name = ''Excavator CAT 320'', a_category = ''Excavator'',
             a_site = ''Yard A'', a_status = Rented, a_lastSeenAt = 0, a_quantity = 3\<rparr>"
    by (simp add: seeded_store_def demoAssets_def hasId_def)
  note a = check_in_behaviour [of "seeded_store 0" "''exc-320-2''" 9000]
  note b = check_in_behaviour [of "seeded_store 0" "''exc-320-1''" 9000]
  from b some obtain i where
    i: "\<forall>j<i. \<not> isActiveFor ''exc-320-1'' (getRentals (seeded_store 0) ! j)"
       "getRentals (snd (handleCheckIn ''exc-320-1'' 9000 (seeded_store 0)))
          = (getRentals (seeded_store 0))
              [i := (getRentals (seeded_store 0) ! i)\<lparr>r_returnedAt := Some 9000\<rparr>]"
    by blast
  from i(1) first have "i = 0"
    by (cases i) auto
  with i(2) have rentals: "getRentals (snd (handleCheckIn ''exc-320-1'' 9000 (seeded_store 0)))
       = (demoRentals 0)[0 := (demoRentals 0 ! 0)\<lparr>r_returnedAt := Some 9000\<rparr>]"
    by (simp add: seeded_store_def)
  from a none have alert: "handleCheckIn ''exc-320-2'' 9000 (seeded_store 0)
       = (Alert ''No active rental found for this asset.'', seeded_store 0)"
    by blast
  from b some before have asset:
    "fst (handleCheckIn ''exc-320-1'' 9000 (seeded_store 0)) = RenderDashboard
     \<and> find (hasId ''exc-320-1'') (getAssets (snd (handleCheckIn ''exc-320-1'' 9000 (seeded_store 0))))
       = Some \<lparr>a_id = ''exc-320-1'', a_name = ''Excavator CAT 320'', a_category = ''Excavator'',
               a_site = ''Yard A'', a_status = Idle, a_lastSeenAt = 9000, a_quantity = 3\<rparr>"
    by simp
  from none alert some rentals asset show ?thesis
    unfolding list_ex_iff by blast
qed

section \<open>C5: when a rental is overdue\<close>

text \<open>
  C5. For every rental and every time \<open>now\<close>, the history view marks the rental overdue
  (\<open>isOverdue\<close>, status text OVERDUE) if and only if \<open>returnedAt = null\<close> and
  \<open>now > checkInAt\<close>; a rental with a return time is not overdue at any \<open>now\<close>. The
  dashboard marks an asset overdue if and only if its active rental exists and is past
  its expected return time.
\<close>

theorem overdue_iff:
  "(isOverdue now rental \<longleftrightarrow> r_returnedAt rental = None \<and> now > r_checkInAt rental)
   \<and> (statusText now rental = ''OVERDUE'' \<longleftrightarrow> r_returnedAt rental = None \<and> now > r_checkInAt rental)
   \<and> (r_returnedAt rental \<noteq> None \<longrightarrow> (\<forall>t. \<not> isOverdue t rental \<and> statusText t rental \<noteq> ''OVERDUE''))
   \<and> (dashboard_isOverdue now rentals a \<longleftrightarrow>
        (\<exists>r. find (isActiveFor (a_id a)) rentals = Some r \<and> r_returnedAt r = None
             \<and> now > r_checkInAt r))
   \<and> (dashboard_status now rentals a = ''OVERDUE'' \<longleftrightarrow> dashboard_isOverdue now rentals a)"
proof -
  have active: "\<And>r. find (isActiveFor (a_id a)) rentals = Some r \<Longrightarrow> r_returnedAt r = None"
    by (induction rentals) (auto simp: isActiveFor_def split: if_splits)
  have dash: "dashboard_isOverdue now rentals a \<longleftrightarrow>
        (\<exists>r. find (isActiveFor (a_id a)) rentals = Some r \<and> r_returnedAt r = None
             \<and> now > r_checkInAt r)"
    using active by (auto simp: dashboard_isOverdue_def activeRental_def split: option.splits)
  have status: "dashboard_status now rentals a = ''OVERDUE'' \<longleftrightarrow> dashboard_isOverdue now rentals a"
    by (auto simp: dashboard_status_def dashboard_isOverdue_def split: option.splits)
  have hist: "\<And>t. statusText t rental = ''OVERDUE'' \<longleftrightarrow> isOverdue t rental"
    by (simp add: statusText_def)
  show ?thesis
    using dash status by (auto simp: hist isOverdue_def)
qed

theorem overdue_iff_witness:
  "r_returnedAt (demoRentals 0 ! 2) \<noteq> None
   \<and> \<not> isOverdue 99999999999 (demoRentals 0 ! 2)
   \<and> statusText 99999999999 (demoRentals 0 ! 2) \<noteq> ''OVERDUE''
   \<and> isOverdue 0 (demoRentals 0 ! 1)
   \<and> statusText 0 (demoRentals 0 ! 1) = ''OVERDUE''
   \<and> \<not> isOverdue 0 (demoRentals 0 ! 0)"
proof -
  have returned: "r_returnedAt (demoRentals 0 ! 2) \<noteq> None"
    by (simp add: demoRentals_def)
  have due: "r_returnedAt (demoRentals 0 ! 1) = None \<and> 0 > r_checkInAt (demoRentals 0 ! 1)"
    by (simp add: demoRentals_def day_ms_def)
  have notyet: "\<not> 0 > r_checkInAt (demoRentals 0 ! 0)"
    by (simp add: demoRentals_def day_ms_def)
  from overdue_iff [of 0 "demoRentals 0 ! 2"] overdue_iff [of 0 "demoRentals 0 ! 1"]
       overdue_iff [of 0 "demoRentals 0 ! 0"] returned due notyet
  show ?thesis
    by blast
qed

section \<open>C6: the number of days a rental is overdue\<close>

lemma ceil_days_bounds:
  "(ceil_days ms - 1) * day_ms < ms \<and> ms \<le> ceil_days ms * day_ms"
proof -
  define c where "c = ceil_days ms"
  have c: "c = \<lceil>real_of_int ms / 86400000\<rceil>"
    by (simp add: c_def ceil_days_def)
  have lo: "real_of_int c - 1 < real_of_int ms / 86400000"
    unfolding c by linarith
  have hi: "real_of_int ms / 86400000 \<le> real_of_int c"
    unfolding c by linarith
  from lo have "real_of_int ((c - 1) * 86400000) < real_of_int ms"
    by (simp add: field_simps)
  then have l: "(c - 1) * 86400000 < ms"
    by (simp only: of_int_less_iff)
  from hi have "real_of_int ms \<le> real_of_int (c * 86400000)"
    by (simp add: field_simps)
  then have h: "ms \<le> c * 86400000"
    by (simp only: of_int_le_iff)
  from l h show ?thesis
    by (simp add: c_def day_ms_def)
qed

text \<open>
  C6. For every overdue rental (\<open>returnedAt = null\<close> and \<open>now > checkInAt\<close>),
  \<open>overdueDays\<close> is the ceiling of \<open>now - checkInAt\<close> in days: the least whole number
  of days that is no shorter than the delay. When \<open>checkInAt\<close> is exactly three days
  before \<open>now\<close>, \<open>overdueDays\<close> is 3. The dashboard shows the same number for the active
  rental of an overdue asset.
\<close>

theorem overdueDays_is_ceiling:
  assumes "r_returnedAt rental = None" and "now > r_checkInAt rental"
  shows "overdueDays now rental = \<lceil>real_of_int (now - r_checkInAt rental) / real_of_int day_ms\<rceil>
    \<and> (overdueDays now rental - 1) * day_ms < now - r_checkInAt rental
    \<and> now - r_checkInAt rental \<le> overdueDays now rental * day_ms
    \<and> (r_checkInAt rental = now - 3 * day_ms \<longrightarrow> overdueDays now rental = 3)
    \<and> (activeRental rentals a = Some rental \<longrightarrow>
          dashboard_overdueDays now rentals a = Some (overdueDays now rental))"
proof -
  from assms have od: "overdueDays now rental = ceil_days (now - r_checkInAt rental)"
    by (simp add: overdueDays_def isOverdue_def)
  have three: "ceil_days (3 * day_ms) = 3"
    by (simp add: ceil_days_def day_ms_def)
  have "r_checkInAt rental = now - 3 * day_ms \<Longrightarrow> overdueDays now rental = 3"
    using three by (simp add: od)
  moreover have "activeRental rentals a = Some rental \<Longrightarrow>
      dashboard_overdueDays now rentals a = Some (overdueDays now rental)"
    using assms by (simp add: od dashboard_overdueDays_def dashboard_isOverdue_def)
  moreover have "overdueDays now rental
      = \<lceil>real_of_int (now - r_checkInAt rental) / real_of_int day_ms\<rceil>"
    by (simp add: od ceil_days_def day_ms_def)
  ultimately show ?thesis
    using ceil_days_bounds [of "now - r_checkInAt rental"] by (simp add: od)
qed

theorem overdueDays_is_ceiling_witness:
  "r_returnedAt due_rental = None \<and> 1000 + 3 * day_ms > r_checkInAt due_rental
   \<and> overdueDays (1000 + 3 * day_ms) due_rental = 3
   \<and> overdueDays (1001 + 3 * day_ms) due_rental = 4
   \<and> overdueDays 1001 due_rental = 1"
proof -
  have r: "r_returnedAt due_rental = None" and c: "r_checkInAt due_rental = 1000"
    by (simp_all add: due_rental_def)
  have t3: "1000 + 3 * day_ms > r_checkInAt due_rental"
    and t4: "1001 + 3 * day_ms > r_checkInAt due_rental"
    and t1: "1001 > r_checkInAt due_rental"
    by (simp_all add: c day_ms_def)
  note w3 = overdueDays_is_ceiling [OF r t3]
  note w4 = overdueDays_is_ceiling [OF r t4]
  note w1 = overdueDays_is_ceiling [OF r t1]
  have "overdueDays (1000 + 3 * day_ms) due_rental = 3"
    using w3 by (simp add: c day_ms_def)
  moreover have "overdueDays (1001 + 3 * day_ms) due_rental = 4"
    using w4 by (simp add: c day_ms_def ceiling_eq_iff)
  moreover have "overdueDays 1001 due_rental = 1"
    using w1 by (simp add: c day_ms_def ceiling_eq_iff)
  ultimately show ?thesis
    using r t3 by simp
qed

section \<open>Counting active rentals\<close>

lemma hasId_eq: "hasId k = (\<lambda>a. a_id a = k)"
  by (simp add: hasId_def fun_eq_iff)

lemma active_count_0_iff: "active_count k rs = 0 \<longleftrightarrow> (\<forall>r\<in>set rs. \<not> isActiveFor k r)"
  by (simp add: active_count_def filter_empty_conv)

lemma list_ex_active_count: "list_ex (isActiveFor k) rs \<longleftrightarrow> 0 < active_count k rs"
  by (simp add: active_count_def list_ex_filter_conv)

lemma active_count_submit:
  "active_count j (getRentals (snd (rent_form_submit data uid now ls)))
     = active_count j (getRentals ls) + (if j = f_assetId data then 1 else 0)"
  by (simp add: getRentals_rent_form_submit active_count_def isActiveFor_def)

lemma not_active_mark_returned: "\<not> isActiveFor k (mark_returned now r)"
  by (simp add: isActiveFor_def mark_returned_def)

lemma active_count_check_in:
  "active_count j (getRentals (snd (handleCheckIn k now ls)))
     = (if j = k then active_count k (getRentals ls) - 1 else active_count j (getRentals ls))"
proof (cases "j = k")
  case True
  have "length (filter (isActiveFor k)
          (assign_found (isActiveFor k) (mark_returned now) (getRentals ls)))
      = length (filter (isActiveFor k) (getRentals ls)) - 1"
    by (rule length_filter_assign_found_self) (rule not_active_mark_returned)
  with True show ?thesis
    by (simp add: getRentals_handleCheckIn active_count_def)
next
  case False
  have "filter (isActiveFor j) (assign_found (isActiveFor k) (mark_returned now) (getRentals ls))
      = filter (isActiveFor j) (getRentals ls)"
    by (rule filter_assign_found) (use False in \<open>simp add: isActiveFor_def mark_returned_def\<close>)
  with False show ?thesis
    by (simp add: getRentals_handleCheckIn active_count_def)
qed

lemma offers_check_out_D:
  assumes "offers_check_out ls k"
  shows "k \<in> set (map a_id (getAssets ls))" and "active_count k (getRentals ls) = 0"
proof -
  from assms obtain a where a: "a \<in> set (getAssets ls)" "a_id a = k"
    "find (isActiveFor k) (getRentals ls) = None"
    by (auto simp: offers_check_out_def list_ex_iff activeRental_def)
  from a(1,2) show "k \<in> set (map a_id (getAssets ls))"
    by auto
  from a(3) show "active_count k (getRentals ls) = 0"
    by (simp add: active_count_0_iff find_None_iff_set)
qed

section \<open>C2: at most one active rental per asset\<close>

lemma step_keeps_one_active:
  assumes one: "\<forall>k. active_count k (getRentals ls) \<le> 1"
    and gate: "from_dashboard_link ls ev"
  shows "\<forall>k. active_count k (getRentals (step ev ls)) \<le> 1"
proof (cases ev)
  case (AddEquipment formData lowered uid now)
  with one show ?thesis
    by (simp add: getRentals_add_equipment_submit)
next
  case (SubmitRent data uid now)
  with gate have "active_count (f_assetId data) (getRentals ls) = 0"
    by (simp add: offers_check_out_D(2))
  with one SubmitRent show ?thesis
    by (simp add: active_count_submit)
next
  case (CheckIn assetId now)
  show ?thesis
  proof
    fix k
    from one have "active_count k (getRentals ls) \<le> 1" and "active_count assetId (getRentals ls) \<le> 1"
      by simp_all
    with CheckIn show "active_count k (getRentals (step ev ls)) \<le> 1"
      by (simp add: active_count_check_in)
  qed
qed

lemma run_keeps_one_active:
  "\<forall>k. active_count k (getRentals ls) \<le> 1 \<Longrightarrow> each_step from_dashboard_link ls evs \<Longrightarrow>
     \<forall>k. active_count k (getRentals (run ls evs)) \<le> 1"
proof (induction evs arbitrary: ls)
  case Nil
  then show ?case by simp
next
  case (Cons ev evs)
  from Cons.prems have gate: "from_dashboard_link ls ev"
    and rest: "each_step from_dashboard_link (step ev ls) evs"
    by simp_all
  have "\<forall>k. active_count k (getRentals (step ev ls)) \<le> 1"
    using Cons.prems(1) gate by (rule step_keeps_one_active)
  from Cons.IH [OF this rest] show ?case
    by simp
qed

lemma seeded_one_active: "active_count k (getRentals (seeded_store t)) \<le> 1"
  by (auto simp: seeded_store_def demoRentals_def active_count_def isActiveFor_def)

text \<open>
  C2 as stated fails: on the demo data, one more check-out of the excavator
  \<open>exc-320-1\<close> leaves two rentals of it without a return time.
\<close>

theorem two_active_rentals_counterexample:
  "active_count ''exc-320-1'' (getRentals (run (seeded_store 0) double_booking)) = 2"
proof -
  have before: "active_count ''exc-320-1'' (getRentals (seeded_store 0)) = 1"
    by (simp add: seeded_store_def demoRentals_def active_count_def isActiveFor_def)
  have target: "f_assetId excavator_request = ''exc-320-1''"
    by (simp add: excavator_request_def)
  show ?thesis
    by (simp add: double_booking_def active_count_submit before target)
qed

text \<open>
  C2 as amended. Start from the empty store or from the seeded store, and take any
  sequence of add-equipment, check-in and check-out actions in which every check-out is
  for an asset whose Check Out link the dashboard renders at that moment (an asset of the
  list with no active rental). Then every asset id has at most one rental with
  \<open>returnedAt = null\<close>.
\<close>

theorem at_most_one_active_from_dashboard:
  assumes "init = empty_store \<or> init = seeded_store t"
    and "each_step from_dashboard_link init evs"
  shows "active_count assetId (getRentals (run init evs)) \<le> 1"
proof -
  have "\<forall>k. active_count k (getRentals init) \<le> 1"
  proof (rule disjE [OF assms(1)])
    assume "init = empty_store"
    then show ?thesis by (simp add: active_count_def)
  next
    assume "init = seeded_store t"
    then show ?thesis using seeded_one_active by simp
  qed
  from run_keeps_one_active [OF this assms(2)] show ?thesis
    by simp
qed

theorem at_most_one_active_from_dashboard_witness:
  "each_step from_dashboard_link (seeded_store 0) quiet_day
   \<and> active_count ''ldr-950-2'' (getRentals (run (seeded_store 0) quiet_day)) \<le> 1
   \<and> active_count ''ldr-950-2'' (getRentals (run (seeded_store 0) quiet_day)) = 1
   \<and> active_count ''exc-320-1'' (getRentals (run (seeded_store 0) quiet_day)) = 0
   \<and> each_step from_dashboard_link empty_store []"
proof -
  have link: "offers_check_out (seeded_store 0) ''ldr-950-2''"
    by (simp add: offers_check_out_def seeded_store_def demoAssets_def demoRentals_def
        activeRental_def isActiveFor_def)
  have target: "f_assetId loader_request = ''ldr-950-2''"
    by (simp add: loader_request_def excavator_request_def)
  have gated: "each_step from_dashboard_link (seeded_store 0) quiet_day"
    by (simp add: quiet_day_def link target)
  have loader: "active_count ''ldr-950-2'' (getRentals (seeded_store 0)) = 0"
    and excavator: "active_count ''exc-320-1'' (getRentals (seeded_store 0)) = 1"
    by (simp_all add: seeded_store_def demoRentals_def active_count_def isActiveFor_def)
  have after: "active_count ''ldr-950-2'' (getRentals (run (seeded_store 0) quiet_day)) = 1"
    "active_count ''exc-320-1'' (getRentals (run (seeded_store 0) quiet_day)) = 0"
    by (simp_all add: quiet_day_def getRentals_add_equipment_submit active_count_check_in
        active_count_submit target loader excavator)
  have start: "seeded_store 0 = empty_store \<or> seeded_store 0 = seeded_store 0"
    by simp
  from at_most_one_active_from_dashboard [OF start gated, of "''ldr-950-2''"] gated after
  show ?thesis
    by simp
qed

section \<open>C3: the cached status and the rental list\<close>

lemma status_consistent_iff:
  "status_consistent ls \<longleftrightarrow>
     (\<forall>a\<in>set (getAssets ls). (a_status a = Rented) = (0 < active_count (a_id a) (getRentals ls)))"
  by (simp add: status_consistent_def list_all_iff list_ex_active_count)

lemma getAssets_submit_distinct:
  assumes "distinct (map a_id (getAssets ls))"
  shows "getAssets (snd (rent_form_submit data uid now ls))
     = map (\<lambda>a. if a_id a = f_assetId data
                 then mark_rented (new_rental data uid now) now a else a) (getAssets ls)"
  unfolding getAssets_rent_form_submit hasId_eq
  using assms by (rule assign_found_distinct_map) (simp add: mark_rented_def)

lemma getAssets_check_in_distinct:
  assumes "distinct (map a_id (getAssets ls))" and "0 < active_count k (getRentals ls)"
  shows "getAssets (snd (handleCheckIn k now ls))
     = map (\<lambda>a. if a_id a = k then mark_idle now a else a) (getAssets ls)"
proof -
  from assms(2) have "\<exists>r\<in>set (getRentals ls). isActiveFor k r"
    using active_count_0_iff [of k "getRentals ls"] by auto
  then have "getAssets (snd (handleCheckIn k now ls))
      = assign_found (hasId k) (mark_idle now) (getAssets ls)"
    by (simp add: getAssets_handleCheckIn)
  also have "\<dots> = map (\<lambda>a. if a_id a = k then mark_idle now a else a) (getAssets ls)"
    unfolding hasId_eq
    using assms(1) by (rule assign_found_distinct_map) (simp add: mark_idle_def)
  finally show ?thesis .
qed

lemma add_keeps_ledger_inv:
  assumes inv: "ledger_inv ls"
    and fresh: "a_id (new_asset formData lowered uid now) \<notin> set (map a_id (getAssets ls))"
  shows "ledger_inv (snd (add_equipment_submit formData lowered uid now ls))"
proof -
  let ?n = "new_asset formData lowered uid now"
  from inv have d: "distinct (map a_id (getAssets ls))"
    and one: "\<forall>k. active_count k (getRentals ls) \<le> 1"
    and st: "\<forall>a\<in>set (getAssets ls). (a_status a = Rented) = (0 < active_count (a_id a) (getRentals ls))"
    and ref: "\<forall>k. 0 < active_count k (getRentals ls) \<longrightarrow> k \<in> set (map a_id (getAssets ls))"
    by (simp_all add: ledger_inv_def)
  from ref fresh have none: "active_count (a_id ?n) (getRentals ls) = 0"
    by auto
  have idle: "a_status ?n = Idle"
    by (simp add: new_asset_def)
  have "distinct (map a_id (getAssets ls @ [?n]))"
    using d fresh by simp
  moreover have "\<forall>a\<in>set (getAssets ls @ [?n]).
      (a_status a = Rented) = (0 < active_count (a_id a) (getRentals ls))"
    using st none idle by auto
  moreover have "\<forall>k. 0 < active_count k (getRentals ls)
      \<longrightarrow> k \<in> set (map a_id (getAssets ls @ [?n]))"
    using ref by auto
  ultimately show ?thesis
    using one
    by (simp add: ledger_inv_def getAssets_add_equipment_submit getRentals_add_equipment_submit)
qed

lemma submit_keeps_ledger_inv:
  assumes inv: "ledger_inv ls" and link: "offers_check_out ls (f_assetId data)"
  shows "ledger_inv (snd (rent_form_submit data uid now ls))"
proof -
  let ?k = "f_assetId data"
  let ?ls' = "snd (rent_form_submit data uid now ls)"
  let ?mark = "mark_rented (new_rental data uid now) now"
  from inv have d: "distinct (map a_id (getAssets ls))"
    and one: "\<forall>k. active_count k (getRentals ls) \<le> 1"
    and st: "\<forall>a\<in>set (getAssets ls). (a_status a = Rented) = (0 < active_count (a_id a) (getRentals ls))"
    and ref: "\<forall>k. 0 < active_count k (getRentals ls) \<longrightarrow> k \<in> set (map a_id (getAssets ls))"
    by (simp_all add: ledger_inv_def)
  from link have listed: "?k \<in> set (map a_id (getAssets ls))"
    and free: "active_count ?k (getRentals ls) = 0"
    by (rule offers_check_out_D)+
  have assets: "getAssets ?ls' = map (\<lambda>a. if a_id a = ?k then ?mark a else a) (getAssets ls)"
    using d by (rule getAssets_submit_distinct)
  have ids: "map a_id (getAssets ?ls') = map a_id (getAssets ls)"
    unfolding assets by (simp add: mark_rented_def cong: map_cong)
  have count: "\<And>j. active_count j (getRentals ?ls')
      = active_count j (getRentals ls) + (if j = ?k then 1 else 0)"
    by (rule active_count_submit)
  have "distinct (map a_id (getAssets ?ls'))"
    using d by (simp add: ids)
  moreover have "\<forall>j. active_count j (getRentals ?ls') \<le> 1"
    using one free by (simp add: count)
  moreover have "\<forall>a\<in>set (getAssets ?ls').
      (a_status a = Rented) = (0 < active_count (a_id a) (getRentals ?ls'))"
  proof
    fix a'
    assume "a' \<in> set (getAssets ?ls')"
    then obtain a where a: "a \<in> set (getAssets ls)"
      and a': "a' = (if a_id a = ?k then ?mark a else a)"
      unfolding assets by auto
    show "(a_status a' = Rented) = (0 < active_count (a_id a') (getRentals ?ls'))"
    proof (cases "a_id a = ?k")
      case True
      with a' show ?thesis
        by (simp add: count mark_rented_def)
    next
      case False
      with a' st a show ?thesis
        by (simp add: count)
    qed
  qed
  moreover have "\<forall>j. 0 < active_count j (getRentals ?ls')
      \<longrightarrow> j \<in> set (map a_id (getAssets ?ls'))"
    unfolding ids using ref listed by (auto simp: count split: if_splits)
  ultimately show ?thesis
    by (simp add: ledger_inv_def)
qed

lemma check_in_keeps_ledger_inv:
  assumes inv: "ledger_inv ls"
  shows "ledger_inv (snd (handleCheckIn k now ls))"
proof (cases "0 < active_count k (getRentals ls)")
  case False
  then have "\<forall>r\<in>set (getRentals ls). \<not> isActiveFor k r"
    by (simp add: active_count_0_iff)
  then show ?thesis
    using inv by (simp add: handleCheckIn_none)
next
  case True
  let ?ls' = "snd (handleCheckIn k now ls)"
  from inv have d: "distinct (map a_id (getAssets ls))"
    and one: "\<forall>j. active_count j (getRentals ls) \<le> 1"
    and st: "\<forall>a\<in>set (getAssets ls). (a_status a = Rented) = (0 < active_count (a_id a) (getRentals ls))"
    and ref: "\<forall>j. 0 < active_count j (getRentals ls) \<longrightarrow> j \<in> set (map a_id (getAssets ls))"
    by (simp_all add: ledger_inv_def)
  from one True have single: "active_count k (getRentals ls) = 1"
    by (simp add: le_antisym Suc_leI)
  have assets: "getAssets ?ls' = map (\<lambda>a. if a_id a = k then mark_idle now a else a) (getAssets ls)"
    using d True by (rule getAssets_check_in_distinct)
  have ids: "map a_id (getAssets ?ls') = map a_id (getAssets ls)"
    unfolding assets by (simp add: mark_idle_def cong: map_cong)
  have count: "\<And>j. active_count j (getRentals ?ls')
      = (if j = k then 0 else active_count j (getRentals ls))"
    by (simp add: active_count_check_in single)
  have "distinct (map a_id (getAssets ?ls'))"
    using d by (simp add: ids)
  moreover have "\<forall>j. active_count j (getRentals ?ls') \<le> 1"
    using one by (simp add: count)
  moreover have "\<forall>a\<in>set (getAssets ?ls').
      (a_status a = Rented) = (0 < active_count (a_id a) (getRentals ?ls'))"
  proof
    fix a'
    assume "a' \<in> set (getAssets ?ls')"
    then obtain a where a: "a \<in> set (getAssets ls)"
      and a': "a' = (if a_id a = k then mark_idle now a else a)"
      unfolding assets by auto
    show "(a_status a' = Rented) = (0 < active_count (a_id a') (getRentals ?ls'))"
    proof (cases "a_id a = k")
      case True
      with a' show ?thesis
        by (simp add: count mark_idle_def)
    next
      case False
      with a' st a show ?thesis
        by (simp add: count)
    qed
  qed
  moreover have "\<forall>j. 0 < active_count j (getRentals ?ls')
      \<longrightarrow> j \<in> set (map a_id (getAssets ?ls'))"
    unfolding ids using ref by (auto simp: count split: if_splits)
  ultimately show ?thesis
    by (simp add: ledger_inv_def)
qed

lemma step_keeps_ledger_inv:
  assumes "ledger_inv ls" and "from_dashboard_link ls ev" and "fresh_asset_id ls ev"
  shows "ledger_inv (step ev ls)"
proof (cases ev)
  case (AddEquipment formData lowered uid now)
  with assms(1,3) show ?thesis
    by (simp add: add_keeps_ledger_inv)
next
  case (SubmitRent data uid now)
  with assms(1,2) show ?thesis
    by (simp add: submit_keeps_ledger_inv)
next
  case (CheckIn assetId now)
  with assms(1) show ?thesis
    by (simp add: check_in_keeps_ledger_inv)
qed

lemma run_keeps_ledger_inv:
  "ledger_inv ls \<Longrightarrow> each_step from_dashboard_link ls evs \<Longrightarrow>
     each_step fresh_asset_id ls evs \<Longrightarrow> ledger_inv (run ls evs)"
proof (induction evs arbitrary: ls)
  case Nil
  then show ?case by simp
next
  case (Cons ev evs)
  from Cons.prems have "ledger_inv (step ev ls)"
    by (simp add: step_keeps_ledger_inv)
  with Cons.prems Cons.IH [of "step ev ls"] show ?case
    by simp
qed

lemma demoAssets_ids:
  "distinct (map a_id (demoAssets t))"
  by (simp add: demoAssets_def)

lemma demoAssets_rented:
  "filter (\<lambda>a. a_status a = Rented) (demoAssets t) = [demoAssets t ! 0, demoAssets t ! 6]"
  by (simp add: demoAssets_def)

lemma seeded_active_count:
  "active_count k (getRentals (seeded_store t))
     = (if k = ''exc-320-1'' \<or> k = ''ldr-950-1'' then 1 else 0)"
  by (auto simp: seeded_store_def demoRentals_def active_count_def isActiveFor_def)

lemma seeded_ledger_inv: "ledger_inv (seeded_store t)"
proof -
  have "\<forall>a\<in>set (demoAssets t).
      (a_status a = Rented) = (a_id a = ''exc-320-1'' \<or> a_id a = ''ldr-950-1'')"
    by (simp add: demoAssets_def)
  moreover have "''exc-320-1'' \<in> set (map a_id (demoAssets t))"
    and "''ldr-950-1'' \<in> set (map a_id (demoAssets t))"
    by (simp_all add: demoAssets_def)
  ultimately show ?thesis
    using demoAssets_ids [of t]
    by (simp add: ledger_inv_def seeded_active_count) (simp add: seeded_store_def)
qed

lemma ids_rent_form_submit:
  "map a_id (getAssets (snd (rent_form_submit data uid now ls))) = map a_id (getAssets ls)"
  unfolding getAssets_rent_form_submit
  by (rule map_assign_found) (simp add: mark_rented_def)

lemma ids_handleCheckIn:
  "map a_id (getAssets (snd (handleCheckIn k now ls))) = map a_id (getAssets ls)"
proof -
  have "map a_id (assign_found (hasId k) (mark_idle now) (getAssets ls)) = map a_id (getAssets ls)"
    by (rule map_assign_found) (simp add: mark_idle_def)
  then show ?thesis
    by (simp add: getAssets_handleCheckIn)
qed

text \<open>
  C3 as stated fails: on the demo data, check the rented excavator \<open>exc-320-1\<close> out a
  second time and then check it in once. The first of its two active rentals is returned
  and the asset becomes idle, while the second rental still has no return time.
\<close>

theorem idle_with_active_rental_counterexample:
  "\<not> status_consistent (run (seeded_store 0) double_booking_return)"
proof -
  let ?ls1 = "snd (rent_form_submit excavator_request ''u1'' 7000 (seeded_store 0))"
  let ?ls2 = "snd (handleCheckIn ''exc-320-1'' 9000 ?ls1)"
  let ?a = "mark_idle 9000 (mark_rented (new_rental excavator_request ''u1'' 7000) 7000
              (demoAssets 0 ! 0))"
  have target: "f_assetId excavator_request = ''exc-320-1''"
    by (simp add: excavator_request_def)
  have final: "run (seeded_store 0) double_booking_return = ?ls2"
    by (simp add: double_booking_return_def)
  have two: "active_count ''exc-320-1'' (getRentals ?ls1) = 2"
    by (simp add: active_count_submit target seeded_active_count)
  then have "\<exists>r\<in>set (getRentals ?ls1). isActiveFor ''exc-320-1'' r"
    using active_count_0_iff [of "''exc-320-1''" "getRentals ?ls1"] by auto
  then have assets2: "getAssets ?ls2
      = assign_found (hasId ''exc-320-1'') (mark_idle 9000) (getAssets ?ls1)"
    by (simp add: getAssets_handleCheckIn)
  have split: "demoAssets 0 = (demoAssets 0 ! 0) # tl (demoAssets 0)"
    and first: "a_id (demoAssets 0 ! 0) = ''exc-320-1''"
    by (simp_all add: demoAssets_def)
  have assets1: "getAssets ?ls1
      = mark_rented (new_rental excavator_request ''u1'' 7000) 7000 (demoAssets 0 ! 0)
          # tl (demoAssets 0)"
  proof -
    have "assign_found (hasId ''exc-320-1'')
            (mark_rented (new_rental excavator_request ''u1'' 7000) 7000) (demoAssets 0)
        = assign_found (hasId ''exc-320-1'')
            (mark_rented (new_rental excavator_request ''u1'' 7000) 7000)
            ((demoAssets 0 ! 0) # tl (demoAssets 0))"
      by (rule arg_cong [OF split])
    also have "\<dots> = mark_rented (new_rental excavator_request ''u1'' 7000) 7000 (demoAssets 0 ! 0)
          # tl (demoAssets 0)"
      by (simp add: hasId_def first)
    finally show ?thesis
      by (simp add: getAssets_rent_form_submit target seeded_store_def)
  qed
  have "getAssets ?ls2 = ?a # tl (demoAssets 0)"
    unfolding assets2 assets1 by (simp add: hasId_def mark_rented_def first)
  then have member: "?a \<in> set (getAssets ?ls2)"
    by simp
  have idle: "a_status ?a = Idle" and id: "a_id ?a = ''exc-320-1''"
    by (simp_all add: mark_idle_def mark_rented_def first)
  have still: "active_count ''exc-320-1'' (getRentals ?ls2) = 1"
    by (simp add: active_count_check_in two)
  from member idle id still have "\<not> (\<forall>a\<in>set (getAssets ?ls2).
      (a_status a = Rented) = (0 < active_count (a_id a) (getRentals ?ls2)))"
    by force
  then show ?thesis
    unfolding final by (simp add: status_consistent_iff)
qed

text \<open>
  C3 as amended. Start from the seeded store and take any sequence of add-equipment,
  check-in and check-out actions in which every check-out is for an asset whose Check Out
  link the dashboard renders at that moment, and every added asset gets an id that no
  asset of the list has. Then an asset of the list has status rented if and only if some
  rental references it with \<open>returnedAt = null\<close>.
\<close>

theorem status_consistent_from_dashboard:
  assumes "each_step from_dashboard_link (seeded_store t) evs"
    and "each_step fresh_asset_id (seeded_store t) evs"
  shows "status_consistent (run (seeded_store t) evs)
    \<and> (\<forall>a\<in>set (getAssets (run (seeded_store t) evs)).
          (a_status a = Rented)
            = (\<exists>r\<in>set (getRentals (run (seeded_store t) evs)).
                 r_assetId r = a_id a \<and> r_returnedAt r = None))"
proof -
  have "ledger_inv (run (seeded_store t) evs)"
    using seeded_ledger_inv assms by (rule run_keeps_ledger_inv)
  then have "status_consistent (run (seeded_store t) evs)"
    by (simp add: ledger_inv_def status_consistent_iff)
  then show ?thesis
    by (simp add: status_consistent_def list_all_iff list_ex_iff isActiveFor_def)
qed

theorem status_consistent_from_dashboard_witness:
  "each_step from_dashboard_link (seeded_store 0) quiet_day
   \<and> each_step fresh_asset_id (seeded_store 0) quiet_day
   \<and> status_consistent (run (seeded_store 0) quiet_day)
   \<and> a_id (new_asset pump_form ''pump'' ''k3x9'' 9500) = ''pump-k3x9''"
proof -
  have link: "offers_check_out (seeded_store 0) ''ldr-950-2''"
    by (simp add: offers_check_out_def seeded_store_def demoAssets_def demoRentals_def
        activeRental_def isActiveFor_def)
  have target: "f_assetId loader_request = ''ldr-950-2''"
    by (simp add: loader_request_def excavator_request_def)
  have gated: "each_step from_dashboard_link (seeded_store 0) quiet_day"
    by (simp add: quiet_day_def link target)
  have pump: "a_id (new_asset pump_form ''pump'' ''k3x9'' 9500) = ''pump-k3x9''"
    by (simp add: new_asset_def)
  have unused: "''pump-k3x9'' \<notin> set (map a_id (demoAssets 0))"
    by (simp add: demoAssets_def)
  have fresh: "each_step fresh_asset_id (seeded_store 0) quiet_day"
    using unused
    by (simp add: quiet_day_def pump ids_handleCheckIn ids_rent_form_submit seeded_store_def
        del: set_map)
  from status_consistent_from_dashboard [OF gated fresh] gated fresh pump
  show ?thesis
    by simp
qed

end
